theory Spec2Isabelle
  imports Complex_Main "HOL-Library.Log_Nat"
begin

section \<open>The data-access layer of \<open>backend/crud.py\<close>\<close>

text \<open>
  The module is a set of functions over a SQLAlchemy session. The session is modelled
  as a record of tables; a table is the list of its rows in the order a query without
  ORDER BY yields them, so that \<open>.first()\<close> is the first row of the filtered list and
  \<open>.all()\<close> the filtered list. A function that writes takes the session and returns the
  session after its commit together with its return value; a function that may return
  \<open>None\<close> returns an option.

  Numbers: \<open>int\<close> columns are \<open>nat\<close>/\<open>int\<close>, timestamps are \<open>int\<close> (any linear order would
  do). The quantities that the source passes through \<open>float(...)\<close> are Python floats:
  the columns \<open>distance_km\<close>, \<open>co2_saved_g\<close>, \<open>g_per_km\<close> and \<open>goal_target_value\<close> hold
  finite doubles, and the arithmetic on them is IEEE 754 binary64 arithmetic, every
  result rounded. The argument \<open>progress\<close> of \<open>update_challenge_status_if_completed\<close> is
  only compared with \<open>100.0\<close> and is a rational.
\<close>

subsection \<open>Enumerations\<close>

text \<open>
  The enumerations are declared in \<open>schemas.py\<close> and \<open>models.py\<close>, which are not among
  the sources. Each datatype has the members \<open>crud.py\<close> names; a further constructor
  stands for every member that \<open>crud.py\<close> does not name.
\<close>

datatype TransportMode = ANY | Mode string

datatype ChallengeScope = PERSONAL | ScopeOther string

datatype ChallengeCompletionType = AUTO | MANUAL

datatype ChallengeGoalType = CO2_SAVED | DISTANCE_KM | TRIP_COUNT | GoalOther string

datatype ChallengeStatus = ACTIVE | COMPLETED | StatusOther string

datatype CreditType = EARN | CreditOther string

subsection \<open>Python floats\<close>

text \<open>
  A Python \<open>float\<close> is an IEEE 754 binary64 value. A finite one is modelled by its exact
  value, a rational; the two signed zeros are one value (they compare equal, and nothing
  in the module tells them apart). Every arithmetic operation computes the exact
  rational result and rounds it to the nearest binary64 value, a tie going to the even
  significand, as the hardware does.

  \<open>floor_log2 a\<close> is the binary exponent of \<open>a > 0\<close>, the integer \<open>e\<close> with
  \<open>2^e \<le> a < 2^(e+1)\<close>. \<open>nearest x\<close> rounds \<open>x\<close> to the grid of its binade: the spacing is
  \<open>2^(e-52)\<close> (53 significant bits), and \<open>2^(-1074)\<close> below the normal range. It does not
  bound the exponent from above; \<open>round_double\<close> adds the overflow to infinity.
\<close>

definition floor_log2 :: "rat \<Rightarrow> int" where
  "floor_log2 a = (if 1 \<le> a then bitlen \<lfloor>a\<rfloor> - 1 else - bitlen (\<lceil>1 / a\<rceil> - 1))"

definition round_half_even :: "rat \<Rightarrow> int" where
  "round_half_even x =
     (let f = \<lfloor>x\<rfloor>; d = x - of_int f
      in if d < 1 / 2 then f
         else if 1 / 2 < d then f + 1
         else if even f then f else f + 1)"

definition nearest :: "rat \<Rightarrow> rat" where
  "nearest x =
     (if x = 0 then 0
      else let a = \<bar>x\<bar>;
               e = max (floor_log2 a) (- 1022);
               ulp = power_int 2 (e - 52);
               m = round_half_even (a / ulp)
           in sgn x * (of_int m * ulp))"

text \<open>
  The finite binary64 values: the rounded rationals below \<open>2^1024\<close>. \<open>valof\<close> is the exact
  value of a double; \<open>dbl q\<close> is the double that a decimal literal or string \<open>q\<close> denotes.
\<close>

typedef double = "{x :: rat. x \<in> range nearest \<and> \<bar>x\<bar> < 2 ^ 1024}"
  morphisms valof mk_double
  by (rule exI [of _ 0]) (auto simp: nearest_def image_iff intro!: exI [of _ 0])

definition dbl :: "rat \<Rightarrow> double" where
  "dbl q = mk_double (nearest q)"

datatype pyfloat = Finite double | PInf | NInf | NaN

datatype py_error = ZeroDivisionError | OverflowError | ValueError

text \<open>
  Rounding an exact result to a float: the nearest double, or an infinity when the
  rounded magnitude reaches \<open>2^1024\<close>.
\<close>

definition round_double :: "rat \<Rightarrow> pyfloat" where
  "round_double x =
     (if \<bar>nearest x\<bar> < 2 ^ 1024 then Finite (mk_double (nearest x))
      else if 0 < x then PInf else NInf)"

text \<open>\<open>x * y\<close> on floats.\<close>

fun fmul :: "pyfloat \<Rightarrow> pyfloat \<Rightarrow> pyfloat" where
  "fmul (Finite a) (Finite b) = round_double (valof a * valof b)"
| "fmul NaN y = NaN"
| "fmul x NaN = NaN"
| "fmul (Finite a) y =
     (if valof a = 0 then NaN else if (0 < valof a) = (y = PInf) then PInf else NInf)"
| "fmul x (Finite b) =
     (if valof b = 0 then NaN else if (0 < valof b) = (x = PInf) then PInf else NInf)"
| "fmul x y = (if x = y then PInf else NInf)"

text \<open>\<open>x / y\<close> on floats: Python raises \<open>ZeroDivisionError\<close> for a zero divisor.\<close>

fun fdiv :: "pyfloat \<Rightarrow> pyfloat \<Rightarrow> py_error + pyfloat" where
  "fdiv x (Finite b) =
     (if valof b = 0 then Inl ZeroDivisionError
      else case x of
             Finite a \<Rightarrow> Inr (round_double (valof a / valof b))
           | PInf \<Rightarrow> Inr (if 0 < valof b then PInf else NInf)
           | NInf \<Rightarrow> Inr (if 0 < valof b then NInf else PInf)
           | NaN \<Rightarrow> Inr NaN)"
| "fdiv NaN y = Inr NaN"
| "fdiv x NaN = Inr NaN"
| "fdiv (Finite a) y = Inr (round_double 0)"
| "fdiv x y = Inr NaN"

text \<open>
  \<open>int(x)\<close> on a float: truncation toward zero; \<open>OverflowError\<close> for an infinity and
  \<open>ValueError\<close> for a NaN.
\<close>

fun py_int :: "pyfloat \<Rightarrow> py_error + int" where
  "py_int (Finite a) = Inr (if 0 \<le> valof a then \<lfloor>valof a\<rfloor> else \<lceil>valof a\<rceil>)"
| "py_int NaN = Inl ValueError"
| "py_int x = Inl OverflowError"

text \<open>
  \<open>round(x, 1)\<close> on a float: the exact value is rounded to the nearest multiple of one
  tenth, a tie going to the even digit, and the result is the double nearest to that
  decimal; an infinity or a NaN is returned as it is.
\<close>

fun py_round1 :: "pyfloat \<Rightarrow> pyfloat" where
  "py_round1 (Finite a) = round_double (of_int (round_half_even (valof a * 10)) / 10)"
| "py_round1 x = x"

text \<open>
  The numbers that reach \<open>float(...)\<close>: an \<open>int\<close> (a COUNT), the exact number that the
  database returns for a SUM, or a float. \<open>float\<close> of an \<open>int\<close> too large for a double
  raises \<open>OverflowError\<close>; the other conversions do not raise.
\<close>

datatype py_number = PyInt int | PyDecimal rat | PyFloat pyfloat

fun py_float :: "py_number \<Rightarrow> py_error + pyfloat" where
  "py_float (PyInt n) =
     (case round_double (of_int n) of Finite a \<Rightarrow> Inr (Finite a) | _ \<Rightarrow> Inl OverflowError)"
| "py_float (PyDecimal q) = Inr (round_double q)"
| "py_float (PyFloat x) = Inr x"

subsection \<open>Rows\<close>

type_synonym datetime = int

record UserCreate =
  username :: string
  email :: string
  password_hash :: string
  role :: string
  user_group_id :: "nat option"

record User =
  user_id :: nat
  username :: string
  email :: string
  password_hash :: string
  role :: string
  user_group_id :: "nat option"

record MobilityLogCreate =
  user_id :: nat
  mode :: TransportMode
  distance_km :: double
  started_at :: datetime
  ended_at :: datetime
  description :: "string option"
  start_point :: "string option"
  end_point :: "string option"

record MobilityLog =
  log_id :: nat
  user_id :: nat
  mode :: TransportMode
  distance_km :: double
  started_at :: datetime
  ended_at :: datetime
  co2_saved_g :: double
  points_earned :: int
  description :: "string option"
  start_point :: "string option"
  end_point :: "string option"

record CarbonFactor =
  mode :: TransportMode
  g_per_km :: double
  valid_from :: datetime
  valid_to :: datetime

record CreditsLedger =
  user_id :: nat
  ref_log_id :: "nat option"
  credit_type :: CreditType
  points :: int
  reason :: string

record Challenge =
  challenge_id :: nat
  title :: string
  description :: string
  scope :: ChallengeScope
  completion_type :: ChallengeCompletionType
  target_mode :: TransportMode
  goal_type :: ChallengeGoalType
  goal_target_value :: double
  start_at :: datetime
  end_at :: datetime
  reward :: int
  created_by :: nat
  status :: ChallengeStatus

record ChallengeMember =
  user_id :: nat
  challenge_id :: nat
  is_completed :: bool

text \<open>
  Of the tables \<open>GardenWateringLog\<close>, \<open>UserGarden\<close>, \<open>UserAchievement\<close>, \<open>Notification\<close>
  and \<open>IngestRaw\<close> the source names the \<open>user_id\<close> column only; the rest of a row is
  kept as one payload.
\<close>

record GardenWateringLog =
  user_id :: nat
  payload :: string

record UserGarden =
  user_id :: nat
  payload :: string

record UserAchievement =
  user_id :: nat
  payload :: string

record Notification =
  user_id :: nat
  payload :: string

record IngestRaw =
  user_id :: nat
  payload :: string

subsection \<open>The session\<close>

text \<open>
  \<open>next_user_id\<close> and \<open>next_log_id\<close> are the sequences from which the database
  assigns the primary keys that \<open>db.refresh\<close> reads back.
\<close>

record Session =
  users :: "User list"
  mobility_logs :: "MobilityLog list"
  carbon_factors :: "CarbonFactor list"
  credits_ledger :: "CreditsLedger list"
  challenges :: "Challenge list"
  challenge_members :: "ChallengeMember list"
  garden_watering_logs :: "GardenWateringLog list"
  user_gardens :: "UserGarden list"
  user_achievements :: "UserAchievement list"
  notifications :: "Notification list"
  ingest_raw :: "IngestRaw list"
  next_user_id :: nat
  next_log_id :: nat

subsection \<open>Query primitives\<close>

text \<open>\<open>Query.first()\<close>: the first row, or \<open>None\<close>.\<close>

definition first :: "'a list \<Rightarrow> 'a option" where
  "first xs = (case xs of [] \<Rightarrow> None | x # _ \<Rightarrow> Some x)"

text \<open>
  SQL \<open>SUM\<close> over the selected rows: NULL (\<open>None\<close>) when no row is selected, and otherwise
  the sum of the values. The sum is the exact one: how the database engine accumulates
  and rounds is not part of the module.
\<close>

definition sql_sum :: "rat list \<Rightarrow> py_number option" where
  "sql_sum xs = (if xs = [] then None else Some (PyDecimal (sum_list xs)))"

text \<open>SQL \<open>COUNT\<close>: never NULL.\<close>

definition sql_count :: "'a list \<Rightarrow> py_number option" where
  "sql_count xs = Some (PyInt (int (length xs)))"

subsection \<open>User\<close>

text \<open>
  Modelled from the spec: the column default of \<open>ChallengeMember.is_completed\<close>, set in
  \<open>models.py\<close> (not among the sources); the spec gives the completion flag of a new
  membership as false. \<open>new_member uid cid\<close> is the row that
  \<open>ChallengeMember(user_id=uid, challenge_id=cid)\<close> inserts.
\<close>

definition new_member :: "nat \<Rightarrow> nat \<Rightarrow> ChallengeMember" where
  "new_member uid cid =
     \<lparr>ChallengeMember.user_id = uid, ChallengeMember.challenge_id = cid,
      ChallengeMember.is_completed = False\<rparr>"

definition create_user :: "Session \<Rightarrow> UserCreate \<Rightarrow> Session \<times> User" where
  "create_user db user =
     (let db_user = \<lparr>User.user_id = next_user_id db,
                     User.username = UserCreate.username user,
                     User.email = UserCreate.email user,
                     User.password_hash = UserCreate.password_hash user,
                     User.role = UserCreate.role user,
                     User.user_group_id = UserCreate.user_group_id user\<rparr>;
          db1 = db\<lparr>users := users db @ [db_user], next_user_id := Suc (next_user_id db)\<rparr>;
          default_challenges =
            filter (\<lambda>c. Challenge.scope c = PERSONAL) (challenges db1);
          members =
            fold (\<lambda>challenge ms.
                    ms @ [new_member (User.user_id db_user) (Challenge.challenge_id challenge)])
                 default_challenges (challenge_members db1)
      in (db1\<lparr>challenge_members := members\<rparr>, db_user))"

definition delete_user :: "Session \<Rightarrow> nat \<Rightarrow> Session \<times> User option" where
  "delete_user db uid =
     (case first (filter (\<lambda>u. User.user_id u = uid) (users db)) of
        None \<Rightarrow> (db, None)
      | Some user \<Rightarrow>
          (db\<lparr>mobility_logs := filter (\<lambda>r. MobilityLog.user_id r \<noteq> uid) (mobility_logs db),
              credits_ledger := filter (\<lambda>r. CreditsLedger.user_id r \<noteq> uid) (credits_ledger db),
              challenge_members :=
                filter (\<lambda>r. ChallengeMember.user_id r \<noteq> uid) (challenge_members db),
              garden_watering_logs :=
                filter (\<lambda>r. GardenWateringLog.user_id r \<noteq> uid) (garden_watering_logs db),
              user_gardens := filter (\<lambda>r. UserGarden.user_id r \<noteq> uid) (user_gardens db),
              challenges := filter (\<lambda>r. Challenge.created_by r \<noteq> uid) (challenges db),
              user_achievements :=
                filter (\<lambda>r. UserAchievement.user_id r \<noteq> uid) (user_achievements db),
              notifications := filter (\<lambda>r. Notification.user_id r \<noteq> uid) (notifications db),
              ingest_raw := filter (\<lambda>r. IngestRaw.user_id r \<noteq> uid) (ingest_raw db),
              users := filter (\<lambda>u. User.user_id u \<noteq> User.user_id user) (users db)\<rparr>,
           Some user))"

definition authenticate_user :: "Session \<Rightarrow> string \<Rightarrow> string \<Rightarrow> User option" where
  "authenticate_user db uname password =
     (case first (filter (\<lambda>u. User.username u = uname \<or> User.email u = uname)
                         (users db)) of
        None \<Rightarrow> None
      | Some user \<Rightarrow> if User.password_hash user \<noteq> password then None else Some user)"

subsection \<open>MobilityLog\<close>

text \<open>
  \<open>factor_applies\<close> is the filter of the \<open>CarbonFactor\<close> query. The warning that the source
  prints when no factor is found goes to standard output and is not part of the model.
  \<open>float(...)\<close> of a column value is that value, the columns holding doubles; the literals
  \<open>0.0\<close> and \<open>100\<close> are the floats \<open>round_double 0\<close> and \<open>round_double 100\<close>. When the
  product is infinite, \<open>int\<close> raises before any row is built, so the row's \<open>co2_saved_g\<close>
  is always a finite double and the last branch is never taken.
\<close>

definition factor_applies :: "MobilityLogCreate \<Rightarrow> CarbonFactor \<Rightarrow> bool" where
  "factor_applies mlog f \<longleftrightarrow>
     CarbonFactor.mode f = MobilityLogCreate.mode mlog \<and>
     valid_from f \<le> MobilityLogCreate.started_at mlog \<and>
     MobilityLogCreate.ended_at mlog \<le> valid_to f"

definition create_mobility_log ::
  "Session \<Rightarrow> MobilityLogCreate \<Rightarrow> py_error + Session \<times> MobilityLog" where
  "create_mobility_log db mlog =
     (let carbon_factor = first (filter (factor_applies mlog) (carbon_factors db));
          co2 = (case carbon_factor of
                   None \<Rightarrow> round_double 0
                 | Some f \<Rightarrow>
                     fmul (Finite (MobilityLogCreate.distance_km mlog)) (Finite (g_per_km f)))
      in case fdiv co2 (round_double 100) of
           Inl e \<Rightarrow> Inl e
         | Inr q \<Rightarrow>
             (case py_int q of
                Inl e \<Rightarrow> Inl e
              | Inr pts \<Rightarrow>
                  (case co2 of
                     Finite c \<Rightarrow>
                       (let db_log =
                              \<lparr>MobilityLog.log_id = next_log_id db,
                               MobilityLog.user_id = MobilityLogCreate.user_id mlog,
                               MobilityLog.mode = MobilityLogCreate.mode mlog,
                               MobilityLog.distance_km = MobilityLogCreate.distance_km mlog,
                               MobilityLog.started_at = MobilityLogCreate.started_at mlog,
                               MobilityLog.ended_at = MobilityLogCreate.ended_at mlog,
                               MobilityLog.co2_saved_g = c,
                               MobilityLog.points_earned = pts,
                               MobilityLog.description = MobilityLogCreate.description mlog,
                               MobilityLog.start_point = MobilityLogCreate.start_point mlog,
                               MobilityLog.end_point = MobilityLogCreate.end_point mlog\<rparr>
                        in Inr (db\<lparr>mobility_logs := mobility_logs db @ [db_log],
                                    next_log_id := Suc (next_log_id db)\<rparr>,
                                db_log))
                   | _ \<Rightarrow> Inl OverflowError)))"

subsection \<open>ChallengeMember\<close>

definition is_member_of :: "nat \<Rightarrow> nat \<Rightarrow> ChallengeMember \<Rightarrow> bool" where
  "is_member_of uid cid m \<longleftrightarrow>
     ChallengeMember.user_id m = uid \<and> ChallengeMember.challenge_id m = cid"

definition join_challenge :: "Session \<Rightarrow> nat \<Rightarrow> nat \<Rightarrow> Session \<times> ChallengeMember" where
  "join_challenge db uid cid =
     (case first (filter (is_member_of uid cid) (challenge_members db)) of
        Some existing_member \<Rightarrow> (db, existing_member)
      | None \<Rightarrow>
          (let db_member = new_member uid cid
           in (db\<lparr>challenge_members := challenge_members db @ [db_member]\<rparr>, db_member)))"

subsection \<open>Challenge progress\<close>

definition in_challenge :: "nat \<Rightarrow> Challenge \<Rightarrow> MobilityLog \<Rightarrow> bool" where
  "in_challenge uid challenge l \<longleftrightarrow>
     MobilityLog.user_id l = uid \<and>
     start_at challenge \<le> MobilityLog.started_at l \<and>
     MobilityLog.ended_at l \<le> end_at challenge \<and>
     (target_mode challenge \<noteq> ANY \<longrightarrow> MobilityLog.mode l = target_mode challenge)"

definition calculate_challenge_progress ::
  "Session \<Rightarrow> nat \<Rightarrow> Challenge \<Rightarrow> py_error + pyfloat" where
  "calculate_challenge_progress db uid challenge =
     (let rows = filter (in_challenge uid challenge) (mobility_logs db);
          total_achieved_value =
            (case goal_type challenge of
               CO2_SAVED \<Rightarrow> sql_sum (map (\<lambda>l. valof (MobilityLog.co2_saved_g l)) rows)
             | DISTANCE_KM \<Rightarrow> sql_sum (map (\<lambda>l. valof (MobilityLog.distance_km l)) rows)
             | TRIP_COUNT \<Rightarrow> sql_count rows
             | GoalOther _ \<Rightarrow> Some (PyFloat (round_double 0)));
          total = (case total_achieved_value of
                     None \<Rightarrow> PyFloat (round_double 0)
                   | Some v \<Rightarrow> v);
          progress =
            (if 0 < valof (goal_target_value challenge)
             then case py_float total of
                    Inl e \<Rightarrow> Inl e
                  | Inr a \<Rightarrow>
                      (case fdiv a (Finite (goal_target_value challenge)) of
                         Inl e \<Rightarrow> Inl e
                       | Inr q \<Rightarrow> Inr (fmul q (round_double 100)))
             else Inr (round_double 0))
      in case progress of Inl e \<Rightarrow> Inl e | Inr p \<Rightarrow> Inr (py_round1 p))"

text \<open>
  The write of one attribute of the first row that a query selected: the row keeps its
  place in the table.
\<close>

fun update_first :: "('a \<Rightarrow> bool) \<Rightarrow> ('a \<Rightarrow> 'a) \<Rightarrow> 'a list \<Rightarrow> 'a list" where
  "update_first P f [] = []"
| "update_first P f (x # xs) = (if P x then f x # xs else x # update_first P f xs)"

text \<open>
  \<open>challenge\<close> is the session's object of the row with its \<open>challenge_id\<close>: the commit
  writes the changed attribute, \<open>status\<close>, to that row.
\<close>

definition update_challenge_status_if_completed ::
  "Session \<Rightarrow> Challenge \<Rightarrow> rat \<Rightarrow> nat \<Rightarrow> Session \<times> Challenge" where
  "update_challenge_status_if_completed db challenge progress uid =
     (if completion_type challenge = AUTO \<and> 100 \<le> progress \<and> status challenge = ACTIVE
      then
        (let member_entry =
               first (filter (is_member_of uid (Challenge.challenge_id challenge))
                             (challenge_members db));
             members =
               (case member_entry of
                  None \<Rightarrow> challenge_members db
                | Some _ \<Rightarrow>
                    update_first (is_member_of uid (Challenge.challenge_id challenge))
                      (\<lambda>m. m\<lparr>is_completed := True\<rparr>) (challenge_members db))
         in (db\<lparr>challenges :=
                   map (\<lambda>c. if Challenge.challenge_id c = Challenge.challenge_id challenge
                            then c\<lparr>status := COMPLETED\<rparr> else c) (challenges db),
                 challenge_members := members\<rparr>,
             challenge\<lparr>status := COMPLETED\<rparr>))
      else (db, challenge))"

definition update_personal_challenge_progress ::
  "Session \<Rightarrow> nat \<Rightarrow> nat \<Rightarrow> rat \<Rightarrow> Session \<times> ChallengeMember option" where
  "update_personal_challenge_progress db uid cid progress_increment =
     (let challenge_member = first (filter (is_member_of uid cid) (challenge_members db));
          challenge = first (filter (\<lambda>c. Challenge.challenge_id c = cid) (challenges db))
      in if challenge_member = None \<or> challenge = None then (db, None)
         else (db, challenge_member))"

section \<open>The achieved value of a challenge, as the spec words it\<close>

text \<open>
  The achieved value in the words of the spec: over the user's logs that start at or
  after \<open>start_at\<close> and end at or before \<open>end_at\<close>, of the target mode unless that is
  \<open>ANY\<close>, the sum of \<open>co2_saved_g\<close>, the sum of \<open>distance_km\<close> or the number of logs, as
  the goal type selects; a sum over no log is zero. For any other goal type nothing is
  aggregated and the value is zero. The value is the exact one, a rational.
\<close>

definition challenge_logs :: "Session \<Rightarrow> nat \<Rightarrow> Challenge \<Rightarrow> MobilityLog list" where
  "challenge_logs db uid c =
     filter (\<lambda>l. MobilityLog.user_id l = uid \<and> start_at c \<le> MobilityLog.started_at l \<and>
                  MobilityLog.ended_at l \<le> end_at c \<and>
                  (target_mode c = ANY \<or> MobilityLog.mode l = target_mode c))
            (mobility_logs db)"

definition achieved :: "Session \<Rightarrow> nat \<Rightarrow> Challenge \<Rightarrow> rat" where
  "achieved db uid c =
     (case goal_type c of
        CO2_SAVED \<Rightarrow> sum_list (map (\<lambda>l. valof (MobilityLog.co2_saved_g l)) (challenge_logs db uid c))
      | DISTANCE_KM \<Rightarrow> sum_list (map (\<lambda>l. valof (MobilityLog.distance_km l)) (challenge_logs db uid c))
      | TRIP_COUNT \<Rightarrow> of_nat (length (challenge_logs db uid c))
      | GoalOther _ \<Rightarrow> 0)"

section \<open>Sample data\<close>

text \<open>
  A small session on which the theorems below are evaluated: two users (the second has
  the first one's username as its e-mail address), four trips, two emission factors,
  four challenges and two memberships. Numbers are written as decimals and stored as the
  doubles they denote.
\<close>

definition sample_factor :: "string \<Rightarrow> rat \<Rightarrow> CarbonFactor" where
  "sample_factor m r =
     \<lparr>CarbonFactor.mode = Mode m, g_per_km = dbl r, valid_from = 0, valid_to = 1000\<rparr>"

definition sample_trip :: "rat \<Rightarrow> MobilityLogCreate" where
  "sample_trip d =
     \<lparr>MobilityLogCreate.user_id = 1, MobilityLogCreate.mode = Mode ''BUS'',
      MobilityLogCreate.distance_km = dbl d, MobilityLogCreate.started_at = 100,
      MobilityLogCreate.ended_at = 200, MobilityLogCreate.description = None,
      MobilityLogCreate.start_point = None, MobilityLogCreate.end_point = None\<rparr>"

definition sample_log :: "nat \<Rightarrow> nat \<Rightarrow> rat \<Rightarrow> rat \<Rightarrow> MobilityLog" where
  "sample_log i uid d c =
     \<lparr>MobilityLog.log_id = i, MobilityLog.user_id = uid, MobilityLog.mode = Mode ''BUS'',
      MobilityLog.distance_km = dbl d, MobilityLog.started_at = 100,
      MobilityLog.ended_at = 200, MobilityLog.co2_saved_g = dbl c,
      MobilityLog.points_earned = \<lfloor>c / 100\<rfloor>,
      MobilityLog.description = None, MobilityLog.start_point = None,
      MobilityLog.end_point = None\<rparr>"

definition sample_user :: "nat \<Rightarrow> string \<Rightarrow> string \<Rightarrow> string \<Rightarrow> User" where
  "sample_user i n e p =
     \<lparr>User.user_id = i, User.username = n, User.email = e, User.password_hash = p,
      User.role = ''USER'', User.user_group_id = None\<rparr>"

definition sample_challenge ::
  "nat \<Rightarrow> ChallengeScope \<Rightarrow> ChallengeCompletionType \<Rightarrow> ChallengeGoalType \<Rightarrow> rat \<Rightarrow>
   ChallengeStatus \<Rightarrow> Challenge" where
  "sample_challenge i sc ct gt target st =
     \<lparr>Challenge.challenge_id = i, title = ''c'', Challenge.description = ''d'', scope = sc,
      completion_type = ct, target_mode = ANY, goal_type = gt,
      goal_target_value = dbl target,
      start_at = 0, end_at = 1000, reward = 10, created_by = 2, status = st\<rparr>"

definition sample_db :: Session where
  "sample_db =
     \<lparr>users = [sample_user 1 ''ann'' ''ann@x.org'' ''pw1'',
               sample_user 2 ''bob'' ''ann'' ''pw2''],
      mobility_logs = [sample_log 1 1 10 1200, sample_log 2 1 5 600, sample_log 3 2 7 840,
                       sample_log 4 1 (1 / 2) 60],
      carbon_factors = [sample_factor ''BUS'' 120, sample_factor ''SUBWAY'' (1875 / 10)],
      credits_ledger = [\<lparr>CreditsLedger.user_id = 1, ref_log_id = Some 1, credit_type = EARN,
                          points = 12, reason = ''trip''\<rparr>],
      challenges = [sample_challenge 1 PERSONAL AUTO TRIP_COUNT 5 ACTIVE,
                    sample_challenge 2 (ScopeOther ''GROUP'') MANUAL CO2_SAVED 1860 ACTIVE,
                    sample_challenge 3 PERSONAL AUTO DISTANCE_KM 0 ACTIVE,
                    sample_challenge 4 PERSONAL AUTO (GoalOther ''STREAK'') 5 COMPLETED],
      challenge_members = [new_member 2 1, new_member 1 1],
      garden_watering_logs = [\<lparr>GardenWateringLog.user_id = 1, GardenWateringLog.payload = ''w''\<rparr>],
      user_gardens = [\<lparr>UserGarden.user_id = 1, UserGarden.payload = ''g''\<rparr>],
      user_achievements = [\<lparr>UserAchievement.user_id = 2, UserAchievement.payload = ''a''\<rparr>],
      notifications = [\<lparr>Notification.user_id = 1, Notification.payload = ''n''\<rparr>],
      ingest_raw = [\<lparr>IngestRaw.user_id = 1, IngestRaw.payload = ''r''\<rparr>],
      next_user_id = 3, next_log_id = 5\<rparr>"

definition rail_trip :: MobilityLogCreate where
  "rail_trip = (sample_trip 10)\<lparr>MobilityLogCreate.mode := Mode ''RAIL''\<rparr>"

definition sample_signup :: UserCreate where
  "sample_signup =
     \<lparr>UserCreate.username = ''cy'', UserCreate.email = ''cy@x.org'',
      UserCreate.password_hash = ''pw3'', UserCreate.role = ''USER'',
      UserCreate.user_group_id = None\<rparr>"

definition subway_trip :: MobilityLogCreate where
  "subway_trip = (sample_trip (368 / 10))\<lparr>MobilityLogCreate.mode := Mode ''SUBWAY''\<rparr>"

definition huge_db :: Session where
  "huge_db = sample_db\<lparr>carbon_factors := [sample_factor ''BUS'' (2 ^ 600)]\<rparr>"

definition subway_log :: MobilityLog where
  "subway_log =
     \<lparr>MobilityLog.log_id = 5, MobilityLog.user_id = 1, MobilityLog.mode = Mode ''SUBWAY'',
      MobilityLog.distance_km = dbl (368 / 10), MobilityLog.started_at = 100,
      MobilityLog.ended_at = 200, MobilityLog.co2_saved_g = dbl (6900 - 1 / 2 ^ 40),
      MobilityLog.points_earned = 68, MobilityLog.description = None,
      MobilityLog.start_point = None, MobilityLog.end_point = None\<rparr>"




section \<open>Properties\<close>

subsection \<open>Helper lemmas\<close>

lemma first_filter_None: "first (filter P xs) = None \<longleftrightarrow> (\<forall>x\<in>set xs. \<not> P x)"
  by (induction xs) (auto simp: first_def)

lemma first_filter_SomeD: "first (filter P xs) = Some x \<Longrightarrow> x \<in> set xs \<and> P x"
  by (induction xs) (auto simp: first_def split: if_splits)

lemma factor_applies_eq:
  "factor_applies mlog =
     (\<lambda>f. CarbonFactor.mode f = MobilityLogCreate.mode mlog \<and>
          valid_from f \<le> MobilityLogCreate.started_at mlog \<and>
          MobilityLogCreate.ended_at mlog \<le> valid_to f)"
  by (rule ext) (simp add: factor_applies_def)

lemma is_member_of_eq:
  "is_member_of uid cid =
     (\<lambda>m. ChallengeMember.user_id m = uid \<and> ChallengeMember.challenge_id m = cid)"
  by (rule ext) (simp add: is_member_of_def)

lemma fold_snoc_map: "fold (\<lambda>x acc. acc @ [g x]) xs init = init @ map g xs"
  by (induction xs arbitrary: init) simp_all

subsection \<open>Rounding\<close>

lemma round_half_even_nonneg: "0 \<le> x \<Longrightarrow> 0 \<le> round_half_even x"
  by (auto simp: round_half_even_def Let_def)

lemma round_half_even_upper: "of_int (round_half_even x) \<le> x + 1 / 2"
  unfolding round_half_even_def Let_def
  by (auto; linarith)

lemma floor_log2_ge1: assumes "1 \<le> a" shows "power_int 2 (floor_log2 a) \<le> a"
proof -
  let ?n = "\<lfloor>a\<rfloor>"
  from assms have n: "0 < ?n" by simp
  from bitlen_bounds [OF n] have b: "2 ^ nat (bitlen ?n - 1) \<le> ?n" by simp
  from n have "1 \<le> bitlen ?n"
    using bitlen_eq_zero_iff [of ?n] bitlen_nonneg [of ?n] by linarith
  then have "power_int (2::rat) (bitlen ?n - 1) = 2 ^ nat (bitlen ?n - 1)"
    by (simp add: power_int_def)
  also have "\<dots> = of_int (2 ^ nat (bitlen ?n - 1))" by simp
  also have "\<dots> \<le> of_int ?n" using b by (simp only: of_int_le_iff)
  also have "\<dots> \<le> a" by simp
  finally show ?thesis using assms by (simp add: floor_log2_def)
qed

lemma floor_log2_lt1: assumes "0 < a" "a < 1" shows "power_int 2 (floor_log2 a) \<le> a"
proof -
  let ?c = "\<lceil>1 / a\<rceil>"
  let ?k = "bitlen (?c - 1)"
  from assms have "1 < 1 / a" by simp
  then have c: "0 < ?c - 1" by (simp add: less_ceiling_iff)
  from bitlen_bounds [OF c] have "?c - 1 < 2 ^ nat ?k" by simp
  then have "?c \<le> 2 ^ nat ?k" by simp
  then have ck: "(of_int ?c :: rat) \<le> of_int (2 ^ nat ?k)" by (simp only: of_int_le_iff)
  have "1 / a \<le> of_int ?c" by simp
  also note ck
  also have "(of_int (2 ^ nat ?k) :: rat) = 2 ^ nat ?k" by simp
  finally have "1 / a \<le> 2 ^ nat ?k" .
  with assms have "1 \<le> a * 2 ^ nat ?k"
    by (simp add: field_simps)
  then have "1 / 2 ^ nat ?k \<le> a"
    by (simp add: field_simps)
  moreover have "power_int (2::rat) (- ?k) = 1 / 2 ^ nat ?k"
    using bitlen_nonneg [of "?c - 1"]
    by (cases "?k = 0") (simp_all add: power_int_def field_simps)
  ultimately show ?thesis using assms by (simp add: floor_log2_def)
qed

lemma power_int_floor_log2_le: "0 < a \<Longrightarrow> power_int 2 (floor_log2 a) \<le> a"
  using floor_log2_ge1 floor_log2_lt1 by (cases "1 \<le> a") auto

lemma ulp_le: assumes "0 < a"
  shows "power_int (2::rat) (max (floor_log2 a) (- 1022) - 52) \<le> max a 1"
proof (cases "- 1022 \<le> floor_log2 a")
  case True
  then have e: "max (floor_log2 a) (- 1022) = floor_log2 a" by simp
  have "power_int (2::rat) (floor_log2 a - 52) = power_int 2 (floor_log2 a) * power_int 2 (- 52)"
    using power_int_add [of "2::rat" "floor_log2 a" "- 52"] by simp
  also have "\<dots> \<le> power_int 2 (floor_log2 a) * 1"
    by (rule mult_left_mono) (simp_all add: power_int_def power_le_one)
  also have "\<dots> \<le> a" using power_int_floor_log2_le [OF assms] by simp
  also have "\<dots> \<le> max a 1" by simp
  finally show ?thesis by (simp only: e)
next
  case False
  then have e: "max (floor_log2 a) (- 1022) = - 1022" by simp
  have "power_int (2::rat) (- 1022 - 52) \<le> 1"
    by (simp add: power_int_def power_le_one)
  also have "\<dots> \<le> max a 1" by simp
  finally show ?thesis by (simp only: e)
qed

lemma nearest_abs_le: "\<bar>nearest x\<bar> \<le> \<bar>x\<bar> + max \<bar>x\<bar> 1 / 2"
proof (cases "x = 0")
  case True
  then show ?thesis by (simp add: nearest_def)
next
  case False
  let ?a = "\<bar>x\<bar>"
  let ?ulp = "power_int (2::rat) (max (floor_log2 ?a) (- 1022) - 52)"
  let ?m = "round_half_even (?a / ?ulp)"
  from False have a: "0 < ?a" by simp
  have u: "0 < ?ulp" by (simp add: zero_less_power_int)
  have m0: "0 \<le> ?m" using a u by (intro round_half_even_nonneg) simp
  have "\<bar>nearest x\<bar> = of_int ?m * ?ulp"
    using False m0 u by (simp add: nearest_def Let_def abs_mult abs_sgn_eq)
  also have "\<dots> \<le> (?a / ?ulp + 1 / 2) * ?ulp"
    using round_half_even_upper [of "?a / ?ulp"] u by (intro mult_right_mono) simp_all
  also have "\<dots> = ?a + ?ulp / 2"
    using u by (simp add: field_simps)
  also have "\<dots> \<le> ?a + max ?a 1 / 2"
    using ulp_le [OF a] by simp
  finally show ?thesis .
qed

lemma nearest_nonneg: "0 \<le> x \<Longrightarrow> 0 \<le> nearest x"
  by (auto simp: nearest_def Let_def round_half_even_nonneg zero_less_power_int less_imp_le
      intro!: mult_nonneg_nonneg)

lemma nearest_hundredth_finite:
  assumes "\<bar>v\<bar> < 2 ^ 1024"
  shows "\<bar>nearest (v / 100)\<bar> < 2 ^ 1024"
proof -
  have "\<bar>nearest (v / 100)\<bar> \<le> \<bar>v / 100\<bar> + max \<bar>v / 100\<bar> 1 / 2"
    by (rule nearest_abs_le)
  also have "\<dots> < 2 ^ 1024"
  proof (cases "\<bar>v / 100\<bar> \<le> 1")
    case True
    then have "\<bar>v / 100\<bar> + max \<bar>v / 100\<bar> 1 / 2 \<le> 3 / 2" by (simp add: max_def)
    also have "\<dots> < (2::rat) ^ 1024" by simp
    finally show ?thesis .
  next
    case False
    then have "\<bar>v / 100\<bar> + max \<bar>v / 100\<bar> 1 / 2 = 3 * \<bar>v\<bar> / 200" by (simp add: max_def)
    also have "\<dots> \<le> \<bar>v\<bar>" by simp
    also have "\<dots> < 2 ^ 1024" by (rule assms)
    finally show ?thesis .
  qed
  finally show ?thesis .
qed

lemma round_half_even_lower: "x - 1 / 2 \<le> of_int (round_half_even x)"
  unfolding round_half_even_def Let_def
  by (auto; linarith)

lemma nearest_abs_ge: "\<bar>x\<bar> - max \<bar>x\<bar> 1 / 2 \<le> \<bar>nearest x\<bar>"
proof (cases "x = 0")
  case True
  then show ?thesis by (simp add: nearest_def)
next
  case False
  let ?a = "\<bar>x\<bar>"
  let ?ulp = "power_int (2::rat) (max (floor_log2 ?a) (- 1022) - 52)"
  let ?m = "round_half_even (?a / ?ulp)"
  from False have a: "0 < ?a" by simp
  have u: "0 < ?ulp" by (simp add: zero_less_power_int)
  have m0: "0 \<le> ?m" using a u by (intro round_half_even_nonneg) simp
  have "?a - max ?a 1 / 2 \<le> ?a - ?ulp / 2"
    using ulp_le [OF a] by simp
  also have "\<dots> = (?a / ?ulp - 1 / 2) * ?ulp"
    using u by (simp add: field_simps)
  also have "\<dots> \<le> of_int ?m * ?ulp"
    using round_half_even_lower [of "?a / ?ulp"] u by (intro mult_right_mono) simp_all
  also have "\<dots> = \<bar>nearest x\<bar>"
    using False m0 u by (simp add: nearest_def Let_def abs_mult abs_sgn_eq)
  finally show ?thesis .
qed

lemma nearest_ge_half: assumes "1 \<le> x" shows "x / 2 \<le> nearest x"
proof -
  from assms have "0 \<le> nearest x" by (intro nearest_nonneg) simp
  with nearest_abs_ge [of x] assms show ?thesis by (simp add: max_def)
qed

lemma nearest_le_twice: assumes "1 \<le> x" shows "nearest x \<le> 3 * x / 2"
proof -
  from assms have "0 \<le> nearest x" by (intro nearest_nonneg) simp
  with nearest_abs_le [of x] assms show ?thesis by (simp add: max_def)
qed

subsection \<open>Doubles\<close>

lemma nearest_zero: "nearest 0 = 0"
  by (simp add: nearest_def)

lemma valof_mk_double: "\<bar>nearest x\<bar> < 2 ^ 1024 \<Longrightarrow> valof (mk_double (nearest x)) = nearest x"
  by (simp add: mk_double_inverse)

lemma valof_dbl: "\<bar>nearest q\<bar> < 2 ^ 1024 \<Longrightarrow> valof (dbl q) = nearest q"
  by (simp add: dbl_def valof_mk_double)

lemma valof_bounded: "\<bar>valof a\<bar> < 2 ^ 1024"
  using valof [of a] by simp

text \<open>
  Rounding is idempotent: a double is its own nearest double, so that \<open>float(x)\<close> of a
  float \<open>x\<close> is \<open>x\<close>. The proof places the rounded value \<open>m * ulp\<close> in the binade of the
  argument, or at the power of two that ends it.
\<close>

lemma floor_log2_upper_ge1: assumes "1 \<le> a" shows "a < power_int 2 (floor_log2 a + 1)"
proof -
  let ?n = "\<lfloor>a\<rfloor>"
  from assms have n: "0 < ?n" by simp
  from bitlen_bounds [OF n] have "?n < 2 ^ nat (bitlen ?n)" by simp
  then have "?n + 1 \<le> 2 ^ nat (bitlen ?n)" by simp
  then have le: "(of_int (?n + 1) :: rat) \<le> of_int (2 ^ nat (bitlen ?n))"
    by (simp only: of_int_le_iff)
  have "a < of_int (?n + 1)" by linarith
  also note le
  also have "(of_int (2 ^ nat (bitlen ?n)) :: rat) = power_int 2 (bitlen ?n)"
    using bitlen_nonneg [of ?n] by (simp add: power_int_def)
  finally show ?thesis using assms by (simp add: floor_log2_def)
qed

lemma floor_log2_upper_lt1: assumes "0 < a" "a < 1" shows "a < power_int 2 (floor_log2 a + 1)"
proof -
  let ?c = "\<lceil>1 / a\<rceil>"
  let ?k = "bitlen (?c - 1)"
  from assms have "1 < 1 / a" by simp
  then have c: "0 < ?c - 1" by (simp add: less_ceiling_iff)
  then have k: "1 \<le> ?k"
    using bitlen_eq_zero_iff [of "?c - 1"] bitlen_nonneg [of "?c - 1"] by linarith
  from bitlen_bounds [OF c] have "2 ^ nat (?k - 1) \<le> ?c - 1" by simp
  then have "(of_int (2 ^ nat (?k - 1)) :: rat) \<le> of_int (?c - 1)"
    by (simp only: of_int_le_iff)
  also have "(of_int (?c - 1) :: rat) < 1 / a" by linarith
  finally have "2 ^ nat (?k - 1) < 1 / a" by simp
  with assms have "a * 2 ^ nat (?k - 1) < 1"
    by (simp add: field_simps)
  then have "a < 1 / 2 ^ nat (?k - 1)"
    by (simp add: field_simps)
  moreover have "power_int (2::rat) (- ?k + 1) = 1 / 2 ^ nat (?k - 1)"
  proof (cases "?k = 1")
    case True
    then show ?thesis by simp
  next
    case False
    with k have "- ?k + 1 < 0" "nat (- (- ?k + 1)) = nat (?k - 1)" by simp_all
    then show ?thesis by (simp add: power_int_def field_simps)
  qed
  ultimately show ?thesis using assms by (simp add: floor_log2_def)
qed


lemma floor_log2_bounds:
  assumes "0 < a"
  shows "power_int 2 (floor_log2 a) \<le> a" and "a < power_int 2 (floor_log2 a + 1)"
  using assms power_int_floor_log2_le floor_log2_upper_ge1 floor_log2_upper_lt1
  by (cases "1 \<le> a"; auto)+

lemma pow2_less_imp: "power_int (2::rat) m < power_int 2 n \<Longrightarrow> m < n"
  using power_int_increasing [of n m "2::rat"] by (cases "m < n") auto

lemma floor_log2_less: assumes "0 < y" "y < power_int 2 n" shows "floor_log2 y < n"
proof -
  from floor_log2_bounds(1) [OF assms(1)] assms(2)
  have "power_int (2::rat) (floor_log2 y) < power_int 2 n" by simp
  then show ?thesis by (rule pow2_less_imp)
qed

lemma floor_log2_pow: "floor_log2 (power_int 2 n) = n"
proof -
  have p: "0 < power_int (2::rat) n" by (simp add: zero_less_power_int)
  from floor_log2_bounds(2) [OF p] have "n < floor_log2 (power_int 2 n) + 1"
    by (rule pow2_less_imp)
  moreover have "floor_log2 (power_int 2 n) < n + 1"
    by (rule floor_log2_less [OF p]) (simp add: power_int_strict_increasing)
  ultimately show ?thesis by simp
qed

lemma round_half_even_le: assumes "z < of_int N" shows "round_half_even z \<le> N"
proof -
  from assms have "\<lfloor>z\<rfloor> < N" by (simp add: floor_less_iff)
  then show ?thesis by (auto simp: round_half_even_def Let_def)
qed

lemma round_half_even_of_int: "round_half_even (of_int n) = n"
  by (simp add: round_half_even_def)

lemma nearest_idem: "nearest (nearest x) = nearest x"
proof (cases "x = 0")
  case True
  then show ?thesis by (simp add: nearest_def)
next
  case False
  define a where "a = \<bar>x\<bar>"
  define e where "e = max (floor_log2 a) (- 1022)"
  define u where "u = power_int (2::rat) (e - 52)"
  define m where "m = round_half_even (a / u)"
  define y where "y = of_int m * u"
  from False have a: "0 < a" by (simp add: a_def)
  have u: "0 < u" by (simp add: u_def zero_less_power_int)
  have e: "- 1022 \<le> e" "floor_log2 a \<le> e" by (simp_all add: e_def)
  have nx: "nearest x = sgn x * y"
    using False by (simp add: nearest_def Let_def a_def e_def u_def m_def y_def)
  have m0: "0 \<le> m" unfolding m_def using a u by (intro round_half_even_nonneg) simp
  have top: "power_int (2::rat) (e + 1) = u * 2 ^ 53"
    using power_int_add [of "2::rat" "e - 52" 53] by (simp add: u_def add.commute)
  have "a < power_int 2 (floor_log2 a + 1)" by (rule floor_log2_bounds(2) [OF a])
  also have "\<dots> \<le> power_int 2 (e + 1)"
    using e(2) by (intro power_int_increasing) simp_all
  finally have "a < u * 2 ^ 53" by (simp only: top)
  then have "a / u < 2 ^ 53"
    using u by (simp add: field_simps)
  then have "a / u < of_int (2 ^ 53)" by simp
  then have m53: "m \<le> 2 ^ 53" unfolding m_def by (rule round_half_even_le)
  show ?thesis
  proof (cases "m = 0")
    case True
    then have "nearest x = 0" by (simp add: nx y_def)
    then show ?thesis by (simp only: nearest_zero)
  next
    case mpos: False
    with m0 have mp: "0 < m" by simp
    with u have y: "0 < y" by (simp add: y_def)
    from False y have sy: "sgn x * y \<noteq> 0" "\<bar>sgn x * y\<bar> = y" "sgn (sgn x * y) = sgn x"
      by (simp_all add: abs_mult sgn_mult sgn_if)
    define e' where "e' = max (floor_log2 y) (- 1022)"
    define u' where "u' = power_int (2::rat) (e' - 52)"
    have u': "0 < u'" by (simp add: u'_def zero_less_power_int)
    have n2: "nearest (sgn x * y) = sgn x * (of_int (round_half_even (y / u')) * u')"
      using sy by (simp add: nearest_def [of "sgn x * y"] Let_def e'_def u'_def)
    have "of_int (round_half_even (y / u')) * u' = y"
    proof (cases "m = 2 ^ 53")
      case True
      then have yp: "y = power_int 2 (e + 1)" by (simp only: top) (simp add: y_def)
      then have "e' = e + 1" using e(1) by (simp add: e'_def floor_log2_pow)
      then have "u' = power_int 2 (e - 51)" by (simp add: u'_def)
      moreover have "power_int (2::rat) (e + 1) = power_int 2 (e - 51) * 2 ^ 52"
        using power_int_add [of "2::rat" "e - 51" 52] by (simp add: add.commute)
      ultimately have q: "y / u' = of_int (2 ^ 52)" and r: "y = of_int (2 ^ 52) * u'"
        using u' by (simp_all add: yp)
      show ?thesis by (simp only: q round_half_even_of_int) (simp only: r [symmetric])
    next
      case False
      with m53 have "m < 2 ^ 53" by simp
      then have "(of_int m :: rat) < of_int (2 ^ 53)" by (simp only: of_int_less_iff)
      then have "of_int m * u < 2 ^ 53 * u"
        using u by (simp del: of_int_less_iff)
      then have "y < power_int 2 (e + 1)"
        by (simp only: top y_def mult.commute)
      from floor_log2_less [OF y this] e(1) have le: "e' \<le> e" by (simp add: e'_def)
      have "u = u' * power_int 2 (e - e')"
        using power_int_add [of "2::rat" "e' - 52" "e - e'"] by (simp add: u_def u'_def)
      also have "power_int (2::rat) (e - e') = of_int (2 ^ nat (e - e'))"
        using le by (simp add: power_int_def)
      finally have uu: "u = u' * of_int (2 ^ nat (e - e'))" .
      have q: "y / u' = of_int (m * 2 ^ nat (e - e'))"
        using u' by (simp add: y_def uu)
      have r: "y = of_int (m * 2 ^ nat (e - e')) * u'"
        by (simp add: y_def uu)
      show ?thesis by (simp only: q round_half_even_of_int) (simp only: r [symmetric])
    qed
    then show ?thesis by (simp only: nx n2)
  qed
qed

lemma nearest_valof: "nearest (valof a) = valof a"
proof -
  from valof [of a] obtain x where "valof a = nearest x" by auto
  then show ?thesis by (simp add: nearest_idem)
qed


lemma dbl_valof: "dbl (valof a) = a"
  by (simp add: dbl_def nearest_valof valof_inverse)

lemma round_double_finite: "\<bar>nearest x\<bar> < 2 ^ 1024 \<Longrightarrow> round_double x = Finite (dbl x)"
  by (simp add: round_double_def dbl_def)

lemma round_double_FiniteD:
  "round_double x = Finite c \<Longrightarrow> \<bar>nearest x\<bar> < 2 ^ 1024 \<and> c = dbl x \<and> valof c = nearest x"
  by (auto simp: round_double_def dbl_def valof_mk_double split: if_splits)

lemma round_double_nonneg_cases:
  "0 \<le> x \<Longrightarrow> round_double x = Finite (dbl x) \<and> \<bar>nearest x\<bar> < 2 ^ 1024 \<or> round_double x = PInf"
  by (cases "x = 0") (auto simp: round_double_def dbl_def nearest_zero)

lemma round_double_zero: "round_double 0 = Finite (dbl 0)"
  by (simp add: round_double_finite nearest_zero)

lemma valof_dbl_zero: "valof (dbl 0) = 0"
  by (simp add: valof_dbl nearest_zero)

lemma nearest_hundred: "nearest 100 = 100"
  by code_simp

lemma round_double_hundred: "round_double 100 = Finite (dbl 100)"
  by (simp add: round_double_finite nearest_hundred)

lemma valof_dbl_hundred: "valof (dbl 100) = 100"
  by (simp add: valof_dbl nearest_hundred)

lemma fdiv_hundred:
  "fdiv (Finite c) (round_double 100) = Inr (Finite (dbl (valof c / 100)))"
  using nearest_hundredth_finite [OF valof_bounded [of c]]
  by (simp add: round_double_hundred valof_dbl_hundred round_double_finite)

lemma valof_hundredth: "valof (dbl (valof c / 100)) = nearest (valof c / 100)"
  using nearest_hundredth_finite [OF valof_bounded [of c]] by (simp add: valof_dbl)

subsection \<open>Doubles of the sample data\<close>

lemma dbl_cong: "nearest p = nearest q \<Longrightarrow> dbl p = dbl q"
  by (simp add: dbl_def)

lemma nearest_36_8: "nearest (368 / 10) = 2589569785738035 / 70368744177664"
  by code_simp

lemma nearest_187_5: "nearest (1875 / 10) = 1875 / 10"
  by code_simp

lemma nearest_subway_product:
  "nearest (2589569785738035 / 70368744177664 * (1875 / 10)) = 6900 - 1 / 2 ^ 40"
  by code_simp

lemma nearest_subway_co2: "nearest (6900 - 1 / 2 ^ 40) = 6900 - 1 / 2 ^ 40"
  by code_simp

lemma floor_subway_points: "\<lfloor>nearest ((6900 - 1 / 2 ^ 40) / 100)\<rfloor> = 68"
  by code_simp

lemma valof_36_8: "valof (dbl (368 / 10)) = 2589569785738035 / 70368744177664"
proof -
  have "\<bar>nearest (368 / 10)\<bar> < 2 ^ 1024"
    by (simp only: nearest_36_8) simp
  from valof_dbl [OF this] show ?thesis by (simp only: nearest_36_8)
qed

lemma valof_187_5: "valof (dbl (1875 / 10)) = 1875 / 10"
proof -
  have "\<bar>nearest (1875 / 10)\<bar> < 2 ^ 1024"
    by (simp only: nearest_187_5) simp
  from valof_dbl [OF this] show ?thesis by (simp only: nearest_187_5)
qed

lemma valof_subway_co2: "valof (dbl (6900 - 1 / 2 ^ 40)) = 6900 - 1 / 2 ^ 40"
proof -
  have "\<bar>nearest (6900 - 1 / 2 ^ 40)\<bar> < 2 ^ 1024"
    by (simp only: nearest_subway_co2) simp
  from valof_dbl [OF this] show ?thesis by (simp only: nearest_subway_co2)
qed

lemma valof_huge: "valof (dbl (2 ^ 600)) = nearest (2 ^ 600)"
  and huge_ge: "(2::rat) ^ 599 \<le> nearest (2 ^ 600)"
proof -
  have one: "(1::rat) \<le> 2 ^ 600" by simp
  from nearest_le_twice [OF one] have "nearest (2 ^ 600) \<le> 3 * 2 ^ 600 / 2" .
  also have "\<dots> < (2::rat) ^ 1024" by simp
  finally have "nearest (2 ^ 600) < 2 ^ 1024" .
  moreover from nearest_ge_half [OF one] show "(2::rat) ^ 599 \<le> nearest (2 ^ 600)" by simp
  ultimately have "\<bar>nearest (2 ^ 600)\<bar> < 2 ^ 1024" by simp
  from valof_dbl [OF this] show "valof (dbl (2 ^ 600)) = nearest (2 ^ 600)" .
qed

lemma huge_product_overflows:
  "\<not> \<bar>nearest (nearest (2 ^ 600) * nearest (2 ^ 600))\<bar> < 2 ^ 1024"
proof -
  have "(2::rat) ^ 599 * 2 ^ 599 \<le> nearest (2 ^ 600) * nearest (2 ^ 600)"
    using huge_ge by (intro mult_mono) simp_all
  then have p: "(2::rat) ^ 1198 \<le> nearest (2 ^ 600) * nearest (2 ^ 600)"
    by (simp add: power_add [symmetric])
  then have "1 \<le> nearest (2 ^ 600) * nearest (2 ^ 600)"
    by (rule order_trans [rotated]) simp
  from nearest_ge_half [OF this] p
  have "(2::rat) ^ 1198 / 2 \<le> nearest (nearest (2 ^ 600) * nearest (2 ^ 600))"
    by simp
  moreover have "(2::rat) ^ 1024 \<le> 2 ^ 1198 / 2" by simp
  ultimately show ?thesis by simp
qed
























subsection \<open>A trip without an emission factor\<close>

text \<open>
  Claim C6. When no \<open>CarbonFactor\<close> row has the trip's mode and a validity window that
  contains the trip (\<open>valid_from \<le> started_at\<close> and \<open>ended_at \<le> valid_to\<close>),
  \<open>create_mobility_log\<close> raises nothing: it returns the log built from the submitted
  trip (its user, mode, distance, times, description and points under the next log id),
  with \<open>co2_saved_g = 0\<close> and \<open>points_earned = 0\<close>, and the session with exactly that log
  appended.
\<close>

theorem create_mobility_log_no_factor:
  assumes "\<forall>f\<in>set (carbon_factors db).
             \<not> (CarbonFactor.mode f = MobilityLogCreate.mode mlog \<and>
                valid_from f \<le> MobilityLogCreate.started_at mlog \<and>
                MobilityLogCreate.ended_at mlog \<le> valid_to f)"
  shows "create_mobility_log db mlog =
           Inr (db\<lparr>mobility_logs :=
                      mobility_logs db @
                      [\<lparr>MobilityLog.log_id = next_log_id db,
                        MobilityLog.user_id = MobilityLogCreate.user_id mlog,
                        MobilityLog.mode = MobilityLogCreate.mode mlog,
                        MobilityLog.distance_km = MobilityLogCreate.distance_km mlog,
                        MobilityLog.started_at = MobilityLogCreate.started_at mlog,
                        MobilityLog.ended_at = MobilityLogCreate.ended_at mlog,
                        MobilityLog.co2_saved_g = dbl 0,
                        MobilityLog.points_earned = 0,
                        MobilityLog.description = MobilityLogCreate.description mlog,
                        MobilityLog.start_point = MobilityLogCreate.start_point mlog,
                        MobilityLog.end_point = MobilityLogCreate.end_point mlog\<rparr>],
                    next_log_id := Suc (next_log_id db)\<rparr>,
                \<lparr>MobilityLog.log_id = next_log_id db,
                 MobilityLog.user_id = MobilityLogCreate.user_id mlog,
                 MobilityLog.mode = MobilityLogCreate.mode mlog,
                 MobilityLog.distance_km = MobilityLogCreate.distance_km mlog,
                 MobilityLog.started_at = MobilityLogCreate.started_at mlog,
                 MobilityLog.ended_at = MobilityLogCreate.ended_at mlog,
                 MobilityLog.co2_saved_g = dbl 0,
                 MobilityLog.points_earned = 0,
                 MobilityLog.description = MobilityLogCreate.description mlog,
                 MobilityLog.start_point = MobilityLogCreate.start_point mlog,
                 MobilityLog.end_point = MobilityLogCreate.end_point mlog\<rparr>) \<and>
         valof (dbl 0) = 0"
proof -
  from assms have none: "first (filter (factor_applies mlog) (carbon_factors db)) = None"
    unfolding first_filter_None factor_applies_def by simp
  show ?thesis
    by (simp add: create_mobility_log_def none round_double_zero fdiv_hundred valof_dbl_zero
        Let_def)
qed

theorem create_mobility_log_no_factor_witness:
  "\<not> (\<exists>f\<in>set (carbon_factors sample_db).
        CarbonFactor.mode f = MobilityLogCreate.mode rail_trip \<and>
        valid_from f \<le> MobilityLogCreate.started_at rail_trip \<and>
        MobilityLogCreate.ended_at rail_trip \<le> valid_to f) \<and>
   create_mobility_log sample_db rail_trip =
     Inr (sample_db\<lparr>mobility_logs :=
                       mobility_logs sample_db @
                       [\<lparr>MobilityLog.log_id = 5, MobilityLog.user_id = 1,
                         MobilityLog.mode = Mode ''RAIL'', MobilityLog.distance_km = dbl 10,
                         MobilityLog.started_at = 100, MobilityLog.ended_at = 200,
                         MobilityLog.co2_saved_g = dbl 0, MobilityLog.points_earned = 0,
                         MobilityLog.description = None, MobilityLog.start_point = None,
                         MobilityLog.end_point = None\<rparr>],
                     next_log_id := 6\<rparr>,
          \<lparr>MobilityLog.log_id = 5, MobilityLog.user_id = 1,
           MobilityLog.mode = Mode ''RAIL'', MobilityLog.distance_km = dbl 10,
           MobilityLog.started_at = 100, MobilityLog.ended_at = 200,
           MobilityLog.co2_saved_g = dbl 0, MobilityLog.points_earned = 0,
           MobilityLog.description = None, MobilityLog.start_point = None,
           MobilityLog.end_point = None\<rparr>)"
proof -
  have h: "\<forall>f\<in>set (carbon_factors sample_db).
      \<not> (CarbonFactor.mode f = MobilityLogCreate.mode rail_trip \<and>
         valid_from f \<le> MobilityLogCreate.started_at rail_trip \<and>
         MobilityLogCreate.ended_at rail_trip \<le> valid_to f)"
    by (simp add: sample_db_def sample_factor_def rail_trip_def sample_trip_def)
  have n: "next_log_id sample_db = 5" "Suc (next_log_id sample_db) = 6"
    by (simp_all add: sample_db_def)
  have f: "MobilityLogCreate.user_id rail_trip = 1"
    "MobilityLogCreate.mode rail_trip = Mode ''RAIL''"
    "MobilityLogCreate.distance_km rail_trip = dbl 10"
    "MobilityLogCreate.started_at rail_trip = 100"
    "MobilityLogCreate.ended_at rail_trip = 200"
    "MobilityLogCreate.description rail_trip = None"
    "MobilityLogCreate.start_point rail_trip = None"
    "MobilityLogCreate.end_point rail_trip = None"
    by (simp_all add: rail_trip_def sample_trip_def)
  from create_mobility_log_no_factor [OF h, THEN conjunct1]
  have "create_mobility_log sample_db rail_trip =
     Inr (sample_db\<lparr>mobility_logs :=
                       mobility_logs sample_db @
                       [\<lparr>MobilityLog.log_id = 5, MobilityLog.user_id = 1,
                         MobilityLog.mode = Mode ''RAIL'', MobilityLog.distance_km = dbl 10,
                         MobilityLog.started_at = 100, MobilityLog.ended_at = 200,
                         MobilityLog.co2_saved_g = dbl 0, MobilityLog.points_earned = 0,
                         MobilityLog.description = None, MobilityLog.start_point = None,
                         MobilityLog.end_point = None\<rparr>],
                     next_log_id := 6\<rparr>,
          \<lparr>MobilityLog.log_id = 5, MobilityLog.user_id = 1,
           MobilityLog.mode = Mode ''RAIL'', MobilityLog.distance_km = dbl 10,
           MobilityLog.started_at = 100, MobilityLog.ended_at = 200,
           MobilityLog.co2_saved_g = dbl 0, MobilityLog.points_earned = 0,
           MobilityLog.description = None, MobilityLog.start_point = None,
           MobilityLog.end_point = None\<rparr>)"
    by (simp add: n f)
  with h show ?thesis by blast
qed

subsection \<open>A trip with an emission factor\<close>

lemma create_mobility_log_factor:
  "first (filter (factor_applies mlog) (carbon_factors db)) = Some f \<Longrightarrow>
   round_double (valof (MobilityLogCreate.distance_km mlog) * valof (g_per_km f)) = Finite c \<Longrightarrow>
   0 \<le> valof c \<Longrightarrow>
   create_mobility_log db mlog =
     Inr (db\<lparr>mobility_logs :=
                mobility_logs db @
                [\<lparr>MobilityLog.log_id = next_log_id db,
                  MobilityLog.user_id = MobilityLogCreate.user_id mlog,
                  MobilityLog.mode = MobilityLogCreate.mode mlog,
                  MobilityLog.distance_km = MobilityLogCreate.distance_km mlog,
                  MobilityLog.started_at = MobilityLogCreate.started_at mlog,
                  MobilityLog.ended_at = MobilityLogCreate.ended_at mlog,
                  MobilityLog.co2_saved_g = c,
                  MobilityLog.points_earned = \<lfloor>nearest (valof c / 100)\<rfloor>,
                  MobilityLog.description = MobilityLogCreate.description mlog,
                  MobilityLog.start_point = MobilityLogCreate.start_point mlog,
                  MobilityLog.end_point = MobilityLogCreate.end_point mlog\<rparr>],
              next_log_id := Suc (next_log_id db)\<rparr>,
          \<lparr>MobilityLog.log_id = next_log_id db,
           MobilityLog.user_id = MobilityLogCreate.user_id mlog,
           MobilityLog.mode = MobilityLogCreate.mode mlog,
           MobilityLog.distance_km = MobilityLogCreate.distance_km mlog,
           MobilityLog.started_at = MobilityLogCreate.started_at mlog,
           MobilityLog.ended_at = MobilityLogCreate.ended_at mlog,
           MobilityLog.co2_saved_g = c,
           MobilityLog.points_earned = \<lfloor>nearest (valof c / 100)\<rfloor>,
           MobilityLog.description = MobilityLogCreate.description mlog,
           MobilityLog.start_point = MobilityLogCreate.start_point mlog,
           MobilityLog.end_point = MobilityLogCreate.end_point mlog\<rparr>)"
proof -
  assume f: "first (filter (factor_applies mlog) (carbon_factors db)) = Some f"
    and c: "round_double (valof (MobilityLogCreate.distance_km mlog) * valof (g_per_km f)) = Finite c"
    and nn: "0 \<le> valof c"
  from nn have "0 \<le> nearest (valof c / 100)"
    by (intro nearest_nonneg) simp
  then show ?thesis
    by (simp add: create_mobility_log_def f c fdiv_hundred valof_hundredth Let_def)
qed

lemma create_mobility_log_overflow:
  "first (filter (factor_applies mlog) (carbon_factors db)) = Some f \<Longrightarrow>
   round_double (valof (MobilityLogCreate.distance_km mlog) * valof (g_per_km f)) = PInf \<Longrightarrow>
   create_mobility_log db mlog = Inl OverflowError"
  by (simp add: create_mobility_log_def round_double_hundred valof_dbl_hundred Let_def)

lemma subway_factor:
  "filter (\<lambda>f. CarbonFactor.mode f = MobilityLogCreate.mode subway_trip \<and>
               valid_from f \<le> MobilityLogCreate.started_at subway_trip \<and>
               MobilityLogCreate.ended_at subway_trip \<le> valid_to f)
          (carbon_factors sample_db) = sample_factor ''SUBWAY'' (1875 / 10) # []"
  by (simp add: sample_db_def sample_factor_def subway_trip_def sample_trip_def)

lemma subway_product:
  "round_double (valof (MobilityLogCreate.distance_km subway_trip) *
                 valof (g_per_km (sample_factor ''SUBWAY'' (1875 / 10)))) =
     Finite (dbl (6900 - 1 / 2 ^ 40))"
proof -
  have v: "valof (MobilityLogCreate.distance_km subway_trip) *
        valof (g_per_km (sample_factor ''SUBWAY'' (1875 / 10))) =
      2589569785738035 / 70368744177664 * (1875 / 10)"
    by (simp only: subway_trip_def sample_trip_def sample_factor_def valof_36_8 valof_187_5
        MobilityLogCreate.simps CarbonFactor.simps)
  have "round_double (2589569785738035 / 70368744177664 * (1875 / 10)) =
      Finite (dbl (2589569785738035 / 70368744177664 * (1875 / 10)))"
    by (rule round_double_finite) (simp only: nearest_subway_product, simp)
  also have "dbl (2589569785738035 / 70368744177664 * (1875 / 10)) = dbl (6900 - 1 / 2 ^ 40)"
    by (rule dbl_cong) (simp only: nearest_subway_product nearest_subway_co2)
  finally show ?thesis by (simp only: v)
qed

text \<open>
  Claim C1, as amended. For a trip of distance \<open>d \<ge> 0\<close>, when the \<open>CarbonFactor\<close> row that
  the lookup returns (the first row, in query order, with the trip's mode and a validity
  window containing the trip) has rate \<open>r \<ge> 0\<close>: if the float product of \<open>d\<close> and \<open>r\<close> is a
  finite double \<open>c\<close>, then \<open>c\<close> is the double nearest to \<open>d * r\<close>, it is not negative, and
  the call returns the log built from the submitted trip under the next log id, with
  \<open>co2_saved_g = c\<close> and \<open>points_earned = \<lfloor>q\<rfloor>\<close>, where \<open>q\<close> is the double nearest to
  \<open>c / 100\<close>, and the session with exactly that log appended; if the product is not
  finite, the call raises \<open>OverflowError\<close>.
\<close>

theorem create_mobility_log_first_factor:
  assumes "0 \<le> valof (MobilityLogCreate.distance_km mlog)"
    and "filter (\<lambda>f. CarbonFactor.mode f = MobilityLogCreate.mode mlog \<and>
                      valid_from f \<le> MobilityLogCreate.started_at mlog \<and>
                      MobilityLogCreate.ended_at mlog \<le> valid_to f)
                (carbon_factors db) = f # rest"
    and "0 \<le> valof (g_per_km f)"
  shows "(round_double (valof (MobilityLogCreate.distance_km mlog) * valof (g_per_km f)) = Finite c \<longrightarrow>
            valof c = nearest (valof (MobilityLogCreate.distance_km mlog) * valof (g_per_km f)) \<and>
            0 \<le> valof c \<and>
            create_mobility_log db mlog =
              Inr (db\<lparr>mobility_logs :=
                         mobility_logs db @
                         [\<lparr>MobilityLog.log_id = next_log_id db,
                          MobilityLog.user_id = MobilityLogCreate.user_id mlog,
                          MobilityLog.mode = MobilityLogCreate.mode mlog,
                          MobilityLog.distance_km = MobilityLogCreate.distance_km mlog,
                          MobilityLog.started_at = MobilityLogCreate.started_at mlog,
                          MobilityLog.ended_at = MobilityLogCreate.ended_at mlog,
                          MobilityLog.co2_saved_g = c,
                          MobilityLog.points_earned = \<lfloor>nearest (valof c / 100)\<rfloor>,
                          MobilityLog.description = MobilityLogCreate.description mlog,
                          MobilityLog.start_point = MobilityLogCreate.start_point mlog,
                          MobilityLog.end_point = MobilityLogCreate.end_point mlog\<rparr>],
                       next_log_id := Suc (next_log_id db)\<rparr>,
                   \<lparr>MobilityLog.log_id = next_log_id db,
                    MobilityLog.user_id = MobilityLogCreate.user_id mlog,
                    MobilityLog.mode = MobilityLogCreate.mode mlog,
                    MobilityLog.distance_km = MobilityLogCreate.distance_km mlog,
                    MobilityLog.started_at = MobilityLogCreate.started_at mlog,
                    MobilityLog.ended_at = MobilityLogCreate.ended_at mlog,
                    MobilityLog.co2_saved_g = c,
                    MobilityLog.points_earned = \<lfloor>nearest (valof c / 100)\<rfloor>,
                    MobilityLog.description = MobilityLogCreate.description mlog,
                    MobilityLog.start_point = MobilityLogCreate.start_point mlog,
                    MobilityLog.end_point = MobilityLogCreate.end_point mlog\<rparr>)) \<and>
         ((\<forall>c. round_double (valof (MobilityLogCreate.distance_km mlog) * valof (g_per_km f)) \<noteq>
                 Finite c) \<longrightarrow>
            create_mobility_log db mlog = Inl OverflowError)"
proof -
  let ?p = "valof (MobilityLogCreate.distance_km mlog) * valof (g_per_km f)"
  from assms(1,3) have p: "0 \<le> ?p" by simp
  from assms(2) have f: "first (filter (factor_applies mlog) (carbon_factors db)) = Some f"
    by (simp add: factor_applies_eq first_def)
  have finite: "valof c = nearest ?p \<and> 0 \<le> valof c \<and>
            create_mobility_log db mlog =
              Inr (db\<lparr>mobility_logs :=
                         mobility_logs db @
                         [\<lparr>MobilityLog.log_id = next_log_id db,
                          MobilityLog.user_id = MobilityLogCreate.user_id mlog,
                          MobilityLog.mode = MobilityLogCreate.mode mlog,
                          MobilityLog.distance_km = MobilityLogCreate.distance_km mlog,
                          MobilityLog.started_at = MobilityLogCreate.started_at mlog,
                          MobilityLog.ended_at = MobilityLogCreate.ended_at mlog,
                          MobilityLog.co2_saved_g = c,
                          MobilityLog.points_earned = \<lfloor>nearest (valof c / 100)\<rfloor>,
                          MobilityLog.description = MobilityLogCreate.description mlog,
                          MobilityLog.start_point = MobilityLogCreate.start_point mlog,
                          MobilityLog.end_point = MobilityLogCreate.end_point mlog\<rparr>],
                       next_log_id := Suc (next_log_id db)\<rparr>,
                   \<lparr>MobilityLog.log_id = next_log_id db,
                    MobilityLog.user_id = MobilityLogCreate.user_id mlog,
                    MobilityLog.mode = MobilityLogCreate.mode mlog,
                    MobilityLog.distance_km = MobilityLogCreate.distance_km mlog,
                    MobilityLog.started_at = MobilityLogCreate.started_at mlog,
                    MobilityLog.ended_at = MobilityLogCreate.ended_at mlog,
                    MobilityLog.co2_saved_g = c,
                    MobilityLog.points_earned = \<lfloor>nearest (valof c / 100)\<rfloor>,
                    MobilityLog.description = MobilityLogCreate.description mlog,
                    MobilityLog.start_point = MobilityLogCreate.start_point mlog,
                    MobilityLog.end_point = MobilityLogCreate.end_point mlog\<rparr>)"
    if c: "round_double ?p = Finite c"
  proof -
    note v = round_double_FiniteD [OF c, THEN conjunct2, THEN conjunct2]
    with nearest_nonneg [OF p] have nn: "0 \<le> valof c" by simp
    from v nn create_mobility_log_factor [OF f c nn] show ?thesis by (intro conjI)
  qed
  have infinite: "create_mobility_log db mlog = Inl OverflowError"
    if "\<forall>c. round_double ?p \<noteq> Finite c"
  proof -
    from round_double_nonneg_cases [OF p] that have "round_double ?p = PInf" by blast
    then show ?thesis by (rule create_mobility_log_overflow [OF f])
  qed
  show ?thesis
    by (rule conjI [OF impI [OF finite] impI [OF infinite]])
qed

theorem create_mobility_log_first_factor_witness:
  "create_mobility_log sample_db subway_trip =
     Inr (sample_db\<lparr>mobility_logs := mobility_logs sample_db @ [subway_log],
                     next_log_id := 6\<rparr>, subway_log) \<and>
   MobilityLog.co2_saved_g subway_log = dbl (6900 - 1 / 2 ^ 40) \<and>
   MobilityLog.points_earned subway_log = 68 \<and>
   valof (dbl (6900 - 1 / 2 ^ 40)) = 6900 - 1 / 2 ^ 40 \<and>
   create_mobility_log huge_db (sample_trip (2 ^ 600)) = Inl OverflowError"
proof -
  have d: "0 \<le> valof (MobilityLogCreate.distance_km subway_trip)"
    by (simp only: subway_trip_def sample_trip_def MobilityLogCreate.simps valof_36_8; simp)
  have r: "0 \<le> valof (g_per_km (sample_factor ''SUBWAY'' (1875 / 10)))"
    by (simp only: sample_factor_def CarbonFactor.simps valof_187_5; simp)
  have n: "next_log_id sample_db = 5" "Suc 5 = 6"
    by (simp_all add: sample_db_def)
  have s: "MobilityLogCreate.user_id subway_trip = 1"
    "MobilityLogCreate.mode subway_trip = Mode ''SUBWAY''"
    "MobilityLogCreate.distance_km subway_trip = dbl (368 / 10)"
    "MobilityLogCreate.started_at subway_trip = 100"
    "MobilityLogCreate.ended_at subway_trip = 200"
    "MobilityLogCreate.description subway_trip = None"
    "MobilityLogCreate.start_point subway_trip = None"
    "MobilityLogCreate.end_point subway_trip = None"
    by (simp_all add: subway_trip_def sample_trip_def)
  note t = create_mobility_log_first_factor [OF d subway_factor r, THEN conjunct1, THEN mp,
      OF subway_product]
  have "create_mobility_log sample_db subway_trip =
     Inr (sample_db\<lparr>mobility_logs := mobility_logs sample_db @ [subway_log],
                     next_log_id := 6\<rparr>, subway_log)"
    by (simp only: t [THEN conjunct2, THEN conjunct2] n s valof_subway_co2 floor_subway_points
        subway_log_def)
  moreover
  have "MobilityLog.co2_saved_g subway_log = dbl (6900 - 1 / 2 ^ 40)"
    "MobilityLog.points_earned subway_log = 68"
    by (simp_all add: subway_log_def)
  moreover
  have h0: "0 \<le> valof (dbl (2 ^ 600))"
    using huge_ge by (simp only: valof_huge) simp
  have hd: "0 \<le> valof (MobilityLogCreate.distance_km (sample_trip (2 ^ 600)))"
    using h0 by (simp add: sample_trip_def)
  have hr: "0 \<le> valof (g_per_km (sample_factor ''BUS'' (2 ^ 600)))"
    using h0 by (simp add: sample_factor_def)
  have hf: "filter (\<lambda>f. CarbonFactor.mode f = MobilityLogCreate.mode (sample_trip (2 ^ 600)) \<and>
               valid_from f \<le> MobilityLogCreate.started_at (sample_trip (2 ^ 600)) \<and>
               MobilityLogCreate.ended_at (sample_trip (2 ^ 600)) \<le> valid_to f)
          (carbon_factors huge_db) = sample_factor ''BUS'' (2 ^ 600) # []"
    by (simp add: huge_db_def sample_factor_def sample_trip_def)
  have hp: "valof (MobilityLogCreate.distance_km (sample_trip (2 ^ 600))) *
        valof (g_per_km (sample_factor ''BUS'' (2 ^ 600))) =
      nearest (2 ^ 600) * nearest (2 ^ 600)"
    by (simp only: sample_trip_def sample_factor_def valof_huge MobilityLogCreate.simps
        CarbonFactor.simps)
  from huge_product_overflows have inf: "\<forall>c. round_double (valof (MobilityLogCreate.distance_km (sample_trip (2 ^ 600))) *
        valof (g_per_km (sample_factor ''BUS'' (2 ^ 600)))) \<noteq> Finite c"
    by (simp only: hp round_double_def if_False) simp
  have "create_mobility_log huge_db (sample_trip (2 ^ 600)) = Inl OverflowError"
    by (rule create_mobility_log_first_factor [OF hd hf hr, THEN conjunct2, THEN mp, OF inf])
  ultimately show ?thesis using valof_subway_co2 by (intro conjI)
qed

text \<open>
  Claim C1 as stated has \<open>co2_saved_g = d * r\<close>. The product is a float product: for the
  trip of 36.8 km and the rate 187.5 the stored value is \<open>6900 - 2^(-40)\<close>
  (6899.999999999999), which is neither the product of the two doubles nor 6900, and
  the points are 68, not 69.
\<close>

theorem create_mobility_log_exact_product_counterexample:
  "sample_factor ''SUBWAY'' (1875 / 10) \<in> set (carbon_factors sample_db) \<and>
   CarbonFactor.mode (sample_factor ''SUBWAY'' (1875 / 10)) = MobilityLogCreate.mode subway_trip \<and>
   valid_from (sample_factor ''SUBWAY'' (1875 / 10)) \<le> MobilityLogCreate.started_at subway_trip \<and>
   MobilityLogCreate.ended_at subway_trip \<le> valid_to (sample_factor ''SUBWAY'' (1875 / 10)) \<and>
   MobilityLogCreate.distance_km subway_trip = dbl (368 / 10) \<and>
   g_per_km (sample_factor ''SUBWAY'' (1875 / 10)) = dbl (1875 / 10) \<and>
   0 \<le> valof (dbl (368 / 10)) \<and> 0 \<le> valof (dbl (1875 / 10)) \<and>
   create_mobility_log sample_db subway_trip =
     Inr (sample_db\<lparr>mobility_logs := mobility_logs sample_db @ [subway_log],
                     next_log_id := 6\<rparr>, subway_log) \<and>
   valof (MobilityLog.co2_saved_g subway_log) = 6900 - 1 / 2 ^ 40 \<and>
   valof (MobilityLog.co2_saved_g subway_log) \<noteq> valof (dbl (368 / 10)) * valof (dbl (1875 / 10)) \<and>
   valof (MobilityLog.co2_saved_g subway_log) \<noteq> 368 / 10 * (1875 / 10) \<and>
   MobilityLog.points_earned subway_log = 68 \<and>
   \<lfloor>valof (dbl (368 / 10)) * valof (dbl (1875 / 10)) / 100\<rfloor> = 68 \<and>
   \<lfloor>(368 / 10 * (1875 / 10) / 100 :: rat)\<rfloor> = 69"
proof -
  have f: "first (filter (factor_applies subway_trip) (carbon_factors sample_db)) =
      Some (sample_factor ''SUBWAY'' (1875 / 10))"
    using subway_factor by (simp add: factor_applies_eq first_def)
  have nn: "0 \<le> valof (dbl (6900 - 1 / 2 ^ 40))"
    by (simp only: valof_subway_co2) simp
  have n: "next_log_id sample_db = 5" "Suc 5 = 6"
    by (simp_all add: sample_db_def)
  have t: "MobilityLogCreate.user_id subway_trip = 1"
    "MobilityLogCreate.mode subway_trip = Mode ''SUBWAY''"
    "MobilityLogCreate.distance_km subway_trip = dbl (368 / 10)"
    "MobilityLogCreate.started_at subway_trip = 100"
    "MobilityLogCreate.ended_at subway_trip = 200"
    "MobilityLogCreate.description subway_trip = None"
    "MobilityLogCreate.start_point subway_trip = None"
    "MobilityLogCreate.end_point subway_trip = None"
    by (simp_all add: subway_trip_def sample_trip_def)
  have "create_mobility_log sample_db subway_trip =
     Inr (sample_db\<lparr>mobility_logs := mobility_logs sample_db @ [subway_log],
                     next_log_id := 6\<rparr>, subway_log)"
    by (simp only: create_mobility_log_factor [OF f subway_product nn] n t valof_subway_co2
        floor_subway_points subway_log_def)
  moreover have "sample_factor ''SUBWAY'' (1875 / 10) \<in> set (carbon_factors sample_db)"
    "CarbonFactor.mode (sample_factor ''SUBWAY'' (1875 / 10)) = MobilityLogCreate.mode subway_trip"
    "valid_from (sample_factor ''SUBWAY'' (1875 / 10)) \<le> MobilityLogCreate.started_at subway_trip"
    "MobilityLogCreate.ended_at subway_trip \<le> valid_to (sample_factor ''SUBWAY'' (1875 / 10))"
    "MobilityLogCreate.distance_km subway_trip = dbl (368 / 10)"
    "g_per_km (sample_factor ''SUBWAY'' (1875 / 10)) = dbl (1875 / 10)"
    by (simp_all add: sample_db_def sample_factor_def subway_trip_def sample_trip_def)
  moreover have "0 \<le> valof (dbl (368 / 10))" "0 \<le> valof (dbl (1875 / 10))"
    by (simp only: valof_36_8 valof_187_5; simp)+
  moreover have "valof (MobilityLog.co2_saved_g subway_log) = 6900 - 1 / 2 ^ 40"
    "valof (MobilityLog.co2_saved_g subway_log) \<noteq> valof (dbl (368 / 10)) * valof (dbl (1875 / 10))"
    "valof (MobilityLog.co2_saved_g subway_log) \<noteq> 368 / 10 * (1875 / 10)"
    "MobilityLog.points_earned subway_log = 68"
    by (simp only: subway_log_def MobilityLog.simps valof_subway_co2 valof_36_8 valof_187_5;
        simp)+
  moreover have "\<lfloor>valof (dbl (368 / 10)) * valof (dbl (1875 / 10)) / 100\<rfloor> = 68"
    unfolding valof_36_8 valof_187_5 by code_simp
  moreover have "\<lfloor>(368 / 10 * (1875 / 10) / 100 :: rat)\<rfloor> = 69"
    by code_simp
  ultimately show ?thesis by (intro conjI)
qed

subsection \<open>Creating a user\<close>

text \<open>
  Claim C5. \<open>create_user\<close> inserts the new user and, for a session with \<open>N\<close> challenges of
  scope \<open>PERSONAL\<close>, exactly \<open>N\<close> \<open>ChallengeMember\<close> rows: one per such challenge, in
  their order, each linking the new user to the challenge with the completion flag false.
\<close>

theorem create_user_enrolls_personal:
  "users (fst (create_user db user)) = users db @ [snd (create_user db user)] \<and>
   User.user_id (snd (create_user db user)) = next_user_id db \<and>
   challenge_members (fst (create_user db user)) =
     challenge_members db @
     map (\<lambda>c. \<lparr>ChallengeMember.user_id = User.user_id (snd (create_user db user)),
               ChallengeMember.challenge_id = Challenge.challenge_id c,
               ChallengeMember.is_completed = False\<rparr>)
         (filter (\<lambda>c. scope c = PERSONAL) (challenges db)) \<and>
   length (challenge_members (fst (create_user db user))) =
     length (challenge_members db) + length (filter (\<lambda>c. scope c = PERSONAL) (challenges db))"
  by (simp add: create_user_def Let_def fold_snoc_map new_member_def)

theorem create_user_enrolls_personal_witness:
  "length (filter (\<lambda>c. scope c = PERSONAL) (challenges sample_db)) = 3 \<and>
   challenge_members (fst (create_user sample_db sample_signup)) =
     challenge_members sample_db @
     [\<lparr>ChallengeMember.user_id = 3, ChallengeMember.challenge_id = 1,
       ChallengeMember.is_completed = False\<rparr>,
      \<lparr>ChallengeMember.user_id = 3, ChallengeMember.challenge_id = 3,
       ChallengeMember.is_completed = False\<rparr>,
      \<lparr>ChallengeMember.user_id = 3, ChallengeMember.challenge_id = 4,
       ChallengeMember.is_completed = False\<rparr>]"
proof -
  have n: "next_user_id sample_db = 3"
    by (simp add: sample_db_def)
  have p: "filter (\<lambda>c. scope c = PERSONAL) (challenges sample_db) =
             [sample_challenge 1 PERSONAL AUTO TRIP_COUNT 5 ACTIVE,
              sample_challenge 3 PERSONAL AUTO DISTANCE_KM 0 ACTIVE,
              sample_challenge 4 PERSONAL AUTO (GoalOther ''STREAK'') 5 COMPLETED]"
    by (simp add: sample_db_def sample_challenge_def)
  from create_user_enrolls_personal [of sample_db sample_signup] n p show ?thesis
    by (simp add: sample_challenge_def)
qed

subsection \<open>Deleting a user\<close>

text \<open>
  Claim C7. For the id of an existing user, \<open>delete_user\<close> returns that user and leaves
  in each dependent table (\<open>MobilityLog\<close>, \<open>CreditsLedger\<close>, \<open>ChallengeMember\<close>,
  \<open>GardenWateringLog\<close>, \<open>UserGarden\<close>, \<open>Challenge\<close> by creator, \<open>UserAchievement\<close>,
  \<open>Notification\<close>, \<open>IngestRaw\<close>) exactly the rows of other users, and no user row with
  the id; for an id that no user has it returns \<open>None\<close> and the session is unchanged.
\<close>

theorem delete_user_cascade:
  "(uid \<in> User.user_id ` set (users db) \<longrightarrow>
      (\<exists>u. snd (delete_user db uid) = Some u \<and> u \<in> set (users db) \<and> User.user_id u = uid) \<and>
      mobility_logs (fst (delete_user db uid)) =
        filter (\<lambda>r. MobilityLog.user_id r \<noteq> uid) (mobility_logs db) \<and>
      credits_ledger (fst (delete_user db uid)) =
        filter (\<lambda>r. CreditsLedger.user_id r \<noteq> uid) (credits_ledger db) \<and>
      challenge_members (fst (delete_user db uid)) =
        filter (\<lambda>r. ChallengeMember.user_id r \<noteq> uid) (challenge_members db) \<and>
      garden_watering_logs (fst (delete_user db uid)) =
        filter (\<lambda>r. GardenWateringLog.user_id r \<noteq> uid) (garden_watering_logs db) \<and>
      user_gardens (fst (delete_user db uid)) =
        filter (\<lambda>r. UserGarden.user_id r \<noteq> uid) (user_gardens db) \<and>
      challenges (fst (delete_user db uid)) =
        filter (\<lambda>r. created_by r \<noteq> uid) (challenges db) \<and>
      user_achievements (fst (delete_user db uid)) =
        filter (\<lambda>r. UserAchievement.user_id r \<noteq> uid) (user_achievements db) \<and>
      notifications (fst (delete_user db uid)) =
        filter (\<lambda>r. Notification.user_id r \<noteq> uid) (notifications db) \<and>
      ingest_raw (fst (delete_user db uid)) =
        filter (\<lambda>r. IngestRaw.user_id r \<noteq> uid) (ingest_raw db) \<and>
      users (fst (delete_user db uid)) = filter (\<lambda>u. User.user_id u \<noteq> uid) (users db) \<and>
      uid \<notin> User.user_id ` set (users (fst (delete_user db uid)))) \<and>
   (uid \<notin> User.user_id ` set (users db) \<longrightarrow> delete_user db uid = (db, None))"
proof (intro conjI impI)
  assume "uid \<notin> User.user_id ` set (users db)"
  then have "first (filter (\<lambda>u. User.user_id u = uid) (users db)) = None"
    unfolding first_filter_None by auto
  then show "delete_user db uid = (db, None)"
    by (simp add: delete_user_def)
next
  assume "uid \<in> User.user_id ` set (users db)"
  then have "first (filter (\<lambda>u. User.user_id u = uid) (users db)) \<noteq> None"
    unfolding first_filter_None by auto
  then obtain u where u: "first (filter (\<lambda>u. User.user_id u = uid) (users db)) = Some u"
    by blast
  from first_filter_SomeD [OF u] have mem: "u \<in> set (users db)" and uid: "User.user_id u = uid"
    by simp_all
  have d: "delete_user db uid =
     (db\<lparr>mobility_logs := filter (\<lambda>r. MobilityLog.user_id r \<noteq> uid) (mobility_logs db),
         credits_ledger := filter (\<lambda>r. CreditsLedger.user_id r \<noteq> uid) (credits_ledger db),
         challenge_members :=
           filter (\<lambda>r. ChallengeMember.user_id r \<noteq> uid) (challenge_members db),
         garden_watering_logs :=
           filter (\<lambda>r. GardenWateringLog.user_id r \<noteq> uid) (garden_watering_logs db),
         user_gardens := filter (\<lambda>r. UserGarden.user_id r \<noteq> uid) (user_gardens db),
         challenges := filter (\<lambda>r. Challenge.created_by r \<noteq> uid) (challenges db),
         user_achievements :=
           filter (\<lambda>r. UserAchievement.user_id r \<noteq> uid) (user_achievements db),
         notifications := filter (\<lambda>r. Notification.user_id r \<noteq> uid) (notifications db),
         ingest_raw := filter (\<lambda>r. IngestRaw.user_id r \<noteq> uid) (ingest_raw db),
         users := filter (\<lambda>u. User.user_id u \<noteq> uid) (users db)\<rparr>,
      Some u)"
    by (simp add: delete_user_def u uid)
  show "\<exists>u. snd (delete_user db uid) = Some u \<and> u \<in> set (users db) \<and> User.user_id u = uid"
    using d mem uid by simp
  show "mobility_logs (fst (delete_user db uid)) =
        filter (\<lambda>r. MobilityLog.user_id r \<noteq> uid) (mobility_logs db)"
    by (simp add: d)
  show "credits_ledger (fst (delete_user db uid)) =
        filter (\<lambda>r. CreditsLedger.user_id r \<noteq> uid) (credits_ledger db)"
    by (simp add: d)
  show "challenge_members (fst (delete_user db uid)) =
        filter (\<lambda>r. ChallengeMember.user_id r \<noteq> uid) (challenge_members db)"
    by (simp add: d)
  show "garden_watering_logs (fst (delete_user db uid)) =
        filter (\<lambda>r. GardenWateringLog.user_id r \<noteq> uid) (garden_watering_logs db)"
    by (simp add: d)
  show "user_gardens (fst (delete_user db uid)) =
        filter (\<lambda>r. UserGarden.user_id r \<noteq> uid) (user_gardens db)"
    by (simp add: d)
  show "challenges (fst (delete_user db uid)) =
        filter (\<lambda>r. created_by r \<noteq> uid) (challenges db)"
    by (simp add: d)
  show "user_achievements (fst (delete_user db uid)) =
        filter (\<lambda>r. UserAchievement.user_id r \<noteq> uid) (user_achievements db)"
    by (simp add: d)
  show "notifications (fst (delete_user db uid)) =
        filter (\<lambda>r. Notification.user_id r \<noteq> uid) (notifications db)"
    by (simp add: d)
  show "ingest_raw (fst (delete_user db uid)) =
        filter (\<lambda>r. IngestRaw.user_id r \<noteq> uid) (ingest_raw db)"
    by (simp add: d)
  show "users (fst (delete_user db uid)) = filter (\<lambda>u. User.user_id u \<noteq> uid) (users db)"
    by (simp add: d)
  show "uid \<notin> User.user_id ` set (users (fst (delete_user db uid)))"
    by (auto simp: d)
qed

theorem delete_user_cascade_witness:
  "1 \<in> User.user_id ` set (users sample_db) \<and>
   snd (delete_user sample_db 1) = Some (sample_user 1 ''ann'' ''ann@x.org'' ''pw1'') \<and>
   mobility_logs (fst (delete_user sample_db 1)) = [sample_log 3 2 7 840] \<and>
   credits_ledger (fst (delete_user sample_db 1)) = [] \<and>
   challenge_members (fst (delete_user sample_db 1)) = [new_member 2 1] \<and>
   garden_watering_logs (fst (delete_user sample_db 1)) = [] \<and>
   user_gardens (fst (delete_user sample_db 1)) = [] \<and>
   challenges (fst (delete_user sample_db 1)) = challenges sample_db \<and>
   length (user_achievements (fst (delete_user sample_db 1))) = 1 \<and>
   notifications (fst (delete_user sample_db 1)) = [] \<and>
   ingest_raw (fst (delete_user sample_db 1)) = [] \<and>
   users (fst (delete_user sample_db 1)) = [sample_user 2 ''bob'' ''ann'' ''pw2''] \<and>
   7 \<notin> User.user_id ` set (users sample_db) \<and>
   delete_user sample_db 7 = (sample_db, None)"
proof -
  have h1: "1 \<in> User.user_id ` set (users sample_db)"
    by (simp add: sample_db_def sample_user_def)
  have h7: "7 \<notin> User.user_id ` set (users sample_db)"
    by (simp add: sample_db_def sample_user_def)
  have r: "snd (delete_user sample_db 1) = Some (sample_user 1 ''ann'' ''ann@x.org'' ''pw1'')"
    by (simp add: delete_user_def first_def sample_db_def sample_user_def)
  from delete_user_cascade [of 1 sample_db] h1
  have "mobility_logs (fst (delete_user sample_db 1)) = [sample_log 3 2 7 840]"
    and "credits_ledger (fst (delete_user sample_db 1)) = []"
    and "challenge_members (fst (delete_user sample_db 1)) = [new_member 2 1]"
    and "garden_watering_logs (fst (delete_user sample_db 1)) = []"
    and "user_gardens (fst (delete_user sample_db 1)) = []"
    and "challenges (fst (delete_user sample_db 1)) = challenges sample_db"
    and "length (user_achievements (fst (delete_user sample_db 1))) = 1"
    and "notifications (fst (delete_user sample_db 1)) = []"
    and "ingest_raw (fst (delete_user sample_db 1)) = []"
    and "users (fst (delete_user sample_db 1)) = [sample_user 2 ''bob'' ''ann'' ''pw2'']"
    by (simp_all add: sample_db_def sample_user_def sample_log_def new_member_def
        sample_challenge_def)
  moreover from delete_user_cascade [of 7 sample_db] h7
  have "delete_user sample_db 7 = (sample_db, None)" by blast
  ultimately show ?thesis using h1 h7 r by blast
qed

subsection \<open>Authentication\<close>

text \<open>
  Claim C8. When \<open>authenticate_user\<close> returns a user, that user's username or e-mail
  equals the identifier and the stored credential equals the supplied one. It returns
  \<open>None\<close> when no user matches the identifier, and when the user found for the identifier
  has a different stored credential; it returns the user found when the credential is
  equal.
\<close>

theorem authenticate_user_exact_credential:
  "(authenticate_user db ident password = Some u \<longrightarrow>
      u \<in> set (users db) \<and> (User.username u = ident \<or> User.email u = ident) \<and>
      User.password_hash u = password) \<and>
   ((\<forall>v\<in>set (users db). User.username v \<noteq> ident \<and> User.email v \<noteq> ident) \<longrightarrow>
      authenticate_user db ident password = None) \<and>
   (first (filter (\<lambda>v. User.username v = ident \<or> User.email v = ident) (users db)) = Some u \<longrightarrow>
      authenticate_user db ident password =
        (if User.password_hash u = password then Some u else None))"
proof -
  let ?found = "first (filter (\<lambda>v. User.username v = ident \<or> User.email v = ident) (users db))"
  have returned: "u \<in> set (users db) \<and> (User.username u = ident \<or> User.email u = ident) \<and>
      User.password_hash u = password"
    if a: "authenticate_user db ident password = Some u"
  proof -
    from a obtain v where v: "?found = Some v"
      by (auto simp: authenticate_user_def split: option.splits)
    with a have "v = u" and "User.password_hash v = password"
      by (auto simp: authenticate_user_def split: if_splits)
    with first_filter_SomeD [OF v] show ?thesis by simp
  qed
  have unknown: "authenticate_user db ident password = None"
    if "\<forall>v\<in>set (users db). User.username v \<noteq> ident \<and> User.email v \<noteq> ident"
  proof -
    from that have "?found = None"
      unfolding first_filter_None by simp
    then show ?thesis by (simp add: authenticate_user_def)
  qed
  have found: "authenticate_user db ident password =
        (if User.password_hash u = password then Some u else None)"
    if "?found = Some u"
    using that by (simp add: authenticate_user_def)
  from returned unknown found show ?thesis by blast
qed

theorem authenticate_user_exact_credential_witness:
  "authenticate_user sample_db ''ann'' ''pw1'' = Some (sample_user 1 ''ann'' ''ann@x.org'' ''pw1'') \<and>
   authenticate_user sample_db ''ann@x.org'' ''pw1'' =
     Some (sample_user 1 ''ann'' ''ann@x.org'' ''pw1'') \<and>
   authenticate_user sample_db ''ann'' ''pw2'' = None \<and>
   authenticate_user sample_db ''zed'' ''pw1'' = None \<and>
   sample_user 1 ''ann'' ''ann@x.org'' ''pw1'' \<in> set (users sample_db) \<and>
   User.password_hash (sample_user 1 ''ann'' ''ann@x.org'' ''pw1'') = ''pw1''"
proof -
  let ?ann = "sample_user 1 ''ann'' ''ann@x.org'' ''pw1''"
  have f1: "first (filter (\<lambda>v. User.username v = ''ann'' \<or> User.email v = ''ann'')
              (users sample_db)) = Some ?ann"
    by (simp add: first_def sample_db_def sample_user_def)
  have f2: "first (filter (\<lambda>v. User.username v = ''ann@x.org'' \<or> User.email v = ''ann@x.org'')
              (users sample_db)) = Some ?ann"
    by (simp add: first_def sample_db_def sample_user_def)
  have n: "\<forall>v\<in>set (users sample_db). User.username v \<noteq> ''zed'' \<and> User.email v \<noteq> ''zed''"
    by (simp add: sample_db_def sample_user_def)
  note found = conjunct2 [THEN conjunct2, THEN mp]
  have ok: "authenticate_user sample_db ''ann'' ''pw1'' = Some ?ann"
    using authenticate_user_exact_credential [of sample_db "''ann''" "''pw1''" ?ann, THEN found, OF f1]
    by (simp add: sample_user_def)
  note returned =
    authenticate_user_exact_credential [of sample_db "''ann''" "''pw1''" ?ann, THEN conjunct1,
      THEN mp, OF ok]
  note ok
  moreover
  have "authenticate_user sample_db ''ann@x.org'' ''pw1'' = Some ?ann"
    using authenticate_user_exact_credential
      [of sample_db "''ann@x.org''" "''pw1''" ?ann, THEN found, OF f2]
    by (simp add: sample_user_def)
  moreover
  have "authenticate_user sample_db ''ann'' ''pw2'' = None"
    using authenticate_user_exact_credential [of sample_db "''ann''" "''pw2''" ?ann, THEN found, OF f1]
    by (simp add: sample_user_def)
  moreover
  have "authenticate_user sample_db ''zed'' ''pw1'' = None"
    using authenticate_user_exact_credential
      [of sample_db "''zed''" "''pw1''" ?ann, THEN conjunct2, THEN conjunct1, THEN mp, OF n] .
  moreover note returned [THEN conjunct1] returned [THEN conjunct2, THEN conjunct2]
  ultimately show ?thesis by (intro conjI)
qed

subsection \<open>Joining a challenge\<close>

lemma length_filter_first_Some:
  "first (filter P xs) = Some x \<Longrightarrow> 1 \<le> length (filter P xs)"
  by (cases "filter P xs") (simp_all add: first_def)

lemma join_challenge_existing:
  "first (filter (is_member_of uid cid) (challenge_members db)) = Some m \<Longrightarrow>
   join_challenge db uid cid = (db, m)"
  by (simp add: join_challenge_def)

lemma join_challenge_new:
  "first (filter (is_member_of uid cid) (challenge_members db)) = None \<Longrightarrow>
   join_challenge db uid cid =
     (db\<lparr>challenge_members := challenge_members db @ [new_member uid cid]\<rparr>, new_member uid cid)"
  by (simp add: join_challenge_def Let_def)

lemma first_filter_append_new:
  "first (filter P xs) = None \<Longrightarrow> P y \<Longrightarrow> filter P (xs @ [y]) = [y]"
  by (simp add: first_filter_None)

text \<open>
  Claim C4. A second \<open>join_challenge\<close> for the same pair returns the membership that the
  first call returned and leaves the session as the first call left it; the membership
  is a row of the table for that pair; and from a session with at most one row for the
  pair (the uniqueness invariant of the data model) there is exactly one row for the pair
  after the two calls.
\<close>

theorem join_challenge_idempotent:
  "join_challenge (fst (join_challenge db uid cid)) uid cid = join_challenge db uid cid \<and>
   ChallengeMember.user_id (snd (join_challenge db uid cid)) = uid \<and>
   ChallengeMember.challenge_id (snd (join_challenge db uid cid)) = cid \<and>
   snd (join_challenge db uid cid) \<in> set (challenge_members (fst (join_challenge db uid cid))) \<and>
   (length (filter (\<lambda>m. ChallengeMember.user_id m = uid \<and> ChallengeMember.challenge_id m = cid)
              (challenge_members db)) \<le> 1 \<longrightarrow>
    length (filter (\<lambda>m. ChallengeMember.user_id m = uid \<and> ChallengeMember.challenge_id m = cid)
              (challenge_members
                 (fst (join_challenge (fst (join_challenge db uid cid)) uid cid)))) = 1)"
proof (cases "first (filter (is_member_of uid cid) (challenge_members db))")
  case None
  let ?db1 = "db\<lparr>challenge_members := challenge_members db @ [new_member uid cid]\<rparr>"
  have new: "is_member_of uid cid (new_member uid cid)"
    by (simp add: is_member_of_def new_member_def)
  have j1: "join_challenge db uid cid = (?db1, new_member uid cid)"
    by (rule join_challenge_new [OF None])
  have f: "filter (is_member_of uid cid) (challenge_members ?db1) = [new_member uid cid]"
    using first_filter_append_new [OF None new] by simp
  then have "first (filter (is_member_of uid cid) (challenge_members ?db1)) =
               Some (new_member uid cid)"
    by (simp add: first_def)
  then have j2: "join_challenge ?db1 uid cid = (?db1, new_member uid cid)"
    by (rule join_challenge_existing)
  have ids: "ChallengeMember.user_id (new_member uid cid) = uid"
    "ChallengeMember.challenge_id (new_member uid cid) = cid"
    by (simp_all add: new_member_def)
  have "fst (join_challenge db uid cid) = ?db1" and "snd (join_challenge db uid cid) = new_member uid cid"
    by (simp_all add: j1)
  moreover have "join_challenge ?db1 uid cid = join_challenge db uid cid"
    by (simp only: j1 j2)
  moreover have "length (filter (\<lambda>m. ChallengeMember.user_id m = uid \<and>
      ChallengeMember.challenge_id m = cid) (challenge_members ?db1)) = 1"
    using f by (simp add: is_member_of_eq)
  moreover have "new_member uid cid \<in> set (challenge_members ?db1)"
    by simp
  ultimately show ?thesis
    using ids by (simp only: fst_conv snd_conv j1 j2) simp
next
  case (Some m)
  have j: "join_challenge db uid cid = (db, m)"
    by (rule join_challenge_existing [OF Some])
  from first_filter_SomeD [OF Some] have m: "m \<in> set (challenge_members db)"
    and p: "is_member_of uid cid m" by simp_all
  from length_filter_first_Some [OF Some]
  have "1 \<le> length (filter (\<lambda>m. ChallengeMember.user_id m = uid \<and>
      ChallengeMember.challenge_id m = cid) (challenge_members db))"
    by (simp only: is_member_of_eq)
  moreover from p have "ChallengeMember.user_id m = uid" "ChallengeMember.challenge_id m = cid"
    by (simp_all add: is_member_of_def)
  ultimately show ?thesis
    using m by (simp only: j fst_conv snd_conv) simp
qed

theorem join_challenge_idempotent_witness:
  "length (filter (\<lambda>m. ChallengeMember.user_id m = 1 \<and> ChallengeMember.challenge_id m = 2)
             (challenge_members sample_db)) = 0 \<and>
   join_challenge (fst (join_challenge sample_db 1 2)) 1 2 = join_challenge sample_db 1 2 \<and>
   snd (join_challenge sample_db 1 2) = new_member 1 2 \<and>
   length (filter (\<lambda>m. ChallengeMember.user_id m = 1 \<and> ChallengeMember.challenge_id m = 2)
             (challenge_members
                (fst (join_challenge (fst (join_challenge sample_db 1 2)) 1 2)))) = 1"
proof -
  have h: "length (filter (\<lambda>m. ChallengeMember.user_id m = 1 \<and> ChallengeMember.challenge_id m = 2)
             (challenge_members sample_db)) = 0"
    by (simp add: sample_db_def new_member_def)
  have r: "snd (join_challenge sample_db 1 2) = new_member 1 2"
    by (simp add: join_challenge_def is_member_of_def first_def sample_db_def new_member_def
        Let_def)
  from h have h': "length (filter (\<lambda>m. ChallengeMember.user_id m = 1 \<and> ChallengeMember.challenge_id m = 2)
             (challenge_members sample_db)) \<le> 1"
    by (simp only:)
  note t = join_challenge_idempotent [of sample_db 1 2]
  from t have a: "join_challenge (fst (join_challenge sample_db 1 2)) 1 2 = join_challenge sample_db 1 2"
    by (rule conjunct1)
  note c = t [THEN conjunct2, THEN conjunct2, THEN conjunct2, THEN conjunct2, THEN mp, OF h']
  from h a r c show ?thesis by (intro conjI)
qed

subsection \<open>Challenge progress\<close>




lemma py_round1_zero: "py_round1 (round_double 0) = round_double 0"
  using round_half_even_of_int [of 0] by (simp add: round_double_zero valof_dbl_zero)


lemma fmul_zero_hundred: "fmul (round_double 0) (round_double 100) = round_double 0"
  by (simp add: round_double_zero round_double_hundred valof_dbl_zero)


lemma in_challenge_eq:
  "filter (in_challenge uid c) (mobility_logs db) = challenge_logs db uid c"
  unfolding challenge_logs_def
  by (rule filter_cong) (auto simp: in_challenge_def)

lemma py_float_total:
  assumes "round_double (achieved db uid c) = Finite a"
  shows "py_float
           (case (case goal_type c of
                    CO2_SAVED \<Rightarrow>
                      sql_sum (map (\<lambda>l. valof (MobilityLog.co2_saved_g l)) (challenge_logs db uid c))
                  | DISTANCE_KM \<Rightarrow>
                      sql_sum (map (\<lambda>l. valof (MobilityLog.distance_km l)) (challenge_logs db uid c))
                  | TRIP_COUNT \<Rightarrow> sql_count (challenge_logs db uid c)
                  | GoalOther _ \<Rightarrow> Some (PyFloat (round_double 0))) of
              None \<Rightarrow> PyFloat (round_double 0)
            | Some v \<Rightarrow> v) = Inr (Finite a)"
proof (cases "goal_type c")
  case CO2_SAVED
  with assms show ?thesis by (auto simp: achieved_def sql_sum_def)
next
  case DISTANCE_KM
  with assms show ?thesis by (auto simp: achieved_def sql_sum_def)
next
  case TRIP_COUNT
  with assms show ?thesis by (simp add: achieved_def sql_count_def)
next
  case (GoalOther x)
  with assms show ?thesis by (simp add: achieved_def)
qed

lemma calculate_challenge_progress_no_target:
  "valof (goal_target_value c) \<le> 0 \<Longrightarrow>
   calculate_challenge_progress db uid c = Inr (round_double 0)"
  by (simp add: calculate_challenge_progress_def Let_def py_round1_zero)

lemma calculate_challenge_progress_finite:
  assumes "0 < valof (goal_target_value c)"
    and "round_double (achieved db uid c) = Finite a"
  shows "calculate_challenge_progress db uid c =
           Inr (py_round1 (fmul (round_double (valof a / valof (goal_target_value c)))
                                (round_double 100)))"
  using assms(1)
  by (simp add: calculate_challenge_progress_def Let_def in_challenge_eq
      py_float_total [OF assms(2)])





text \<open>
  Claim C10. For a challenge whose goal type is none of \<open>CO2_SAVED\<close>, \<open>DISTANCE_KM\<close>,
  \<open>TRIP_COUNT\<close>, \<open>calculate_challenge_progress\<close> returns 0.0, whatever the logs and the
  target value.
\<close>

theorem calculate_challenge_progress_other_goal:
  assumes "goal_type c \<notin> {CO2_SAVED, DISTANCE_KM, TRIP_COUNT}"
  shows "calculate_challenge_progress db uid c = Inr (Finite (dbl 0)) \<and> valof (dbl 0) = 0"
proof -
  from assms have "achieved db uid c = 0"
    by (cases "goal_type c") (simp_all add: achieved_def)
  then have a: "round_double (achieved db uid c) = Finite (dbl 0)"
    by (simp add: round_double_zero)
  have "calculate_challenge_progress db uid c = Inr (round_double 0)"
  proof (cases "0 < valof (goal_target_value c)")
    case True
    from calculate_challenge_progress_finite [OF True a] show ?thesis
      by (simp add: valof_dbl_zero fmul_zero_hundred py_round1_zero)
  next
    case False
    then show ?thesis by (simp add: calculate_challenge_progress_no_target)
  qed
  then show ?thesis by (simp add: round_double_zero valof_dbl_zero)
qed

theorem calculate_challenge_progress_other_goal_witness:
  "goal_type (sample_challenge 4 PERSONAL AUTO (GoalOther ''STREAK'') 5 COMPLETED) =
     GoalOther ''STREAK'' \<and>
   calculate_challenge_progress sample_db 1
     (sample_challenge 4 PERSONAL AUTO (GoalOther ''STREAK'') 5 COMPLETED) = Inr (Finite (dbl 0))"
proof -
  let ?c = "sample_challenge 4 PERSONAL AUTO (GoalOther ''STREAK'') 5 COMPLETED"
  have g: "goal_type ?c = GoalOther ''STREAK''"
    by (simp add: sample_challenge_def)
  then have h: "goal_type ?c \<notin> {CO2_SAVED, DISTANCE_KM, TRIP_COUNT}"
    by simp
  from calculate_challenge_progress_other_goal [OF h, of sample_db 1, THEN conjunct1] g
  show ?thesis by (intro conjI)
qed

subsection \<open>Completing a challenge\<close>

lemma update_first_length: "length (update_first P f xs) = length xs"
  by (induction xs) simp_all

lemma update_first_others:
  "(\<And>x. P x \<Longrightarrow> P (f x)) \<Longrightarrow>
   filter (\<lambda>x. \<not> P x) (update_first P f xs) = filter (\<lambda>x. \<not> P x) xs"
  by (induction xs) simp_all

lemma update_first_first:
  "(\<And>x. P x \<Longrightarrow> P (f x)) \<Longrightarrow> first (filter P xs) = Some m \<Longrightarrow>
   first (filter P (update_first P f xs)) = Some (f m)"
  by (induction xs) (auto simp: first_def)

lemma is_member_of_completed:
  "is_member_of uid cid m \<Longrightarrow> is_member_of uid cid (m\<lparr>is_completed := True\<rparr>)"
  by (simp add: is_member_of_def)

lemma update_challenge_status_skip:
  "completion_type c \<noteq> AUTO \<or> status c \<noteq> ACTIVE \<or> progress < 100 \<Longrightarrow>
   update_challenge_status_if_completed db c progress uid = (db, c)"
  by (auto simp: update_challenge_status_if_completed_def)

lemma update_challenge_status_fire:
  "completion_type c = AUTO \<Longrightarrow> status c = ACTIVE \<Longrightarrow> 100 \<le> progress \<Longrightarrow>
   update_challenge_status_if_completed db c progress uid =
     (db\<lparr>challenges :=
           map (\<lambda>r. if Challenge.challenge_id r = Challenge.challenge_id c
                    then r\<lparr>status := COMPLETED\<rparr> else r) (challenges db),
         challenge_members :=
           (case first (filter (is_member_of uid (Challenge.challenge_id c))
                         (challenge_members db)) of
              None \<Rightarrow> challenge_members db
            | Some _ \<Rightarrow>
                update_first (is_member_of uid (Challenge.challenge_id c))
                  (\<lambda>m. m\<lparr>is_completed := True\<rparr>) (challenge_members db))\<rparr>,
      c\<lparr>status := COMPLETED\<rparr>)"
  by (simp add: update_challenge_status_if_completed_def Let_def)

text \<open>
  Claim C3. \<open>update_challenge_status_if_completed\<close> changes nothing and returns the
  challenge as it is when the completion type is not \<open>AUTO\<close>, or the status is not
  \<open>ACTIVE\<close>, or the progress is below 100. When all three guards hold, the returned
  challenge and the challenge's row have status \<open>COMPLETED\<close>; the membership found for
  \<open>(user_id, challenge_id)\<close>, if there is one, has its completion flag set, and the table
  is unchanged if there is none; memberships of other pairs and all other tables are
  unchanged. A challenge that is \<open>COMPLETED\<close> is returned as it is for every progress and
  user, so the transition is one way, and a second call on the result of a completing
  call changes nothing.
\<close>

theorem update_challenge_status_if_completed_guards:
  "(completion_type c \<noteq> AUTO \<or> status c \<noteq> ACTIVE \<or> progress < 100 \<longrightarrow>
      update_challenge_status_if_completed db c progress uid = (db, c)) \<and>
   (completion_type c = AUTO \<and> status c = ACTIVE \<and> 100 \<le> progress \<longrightarrow>
      snd (update_challenge_status_if_completed db c progress uid) = c\<lparr>status := COMPLETED\<rparr> \<and>
      challenges (fst (update_challenge_status_if_completed db c progress uid)) =
        map (\<lambda>r. if Challenge.challenge_id r = Challenge.challenge_id c
                 then r\<lparr>status := COMPLETED\<rparr> else r) (challenges db) \<and>
      (\<forall>m. first (filter (\<lambda>m. ChallengeMember.user_id m = uid \<and>
                             ChallengeMember.challenge_id m = Challenge.challenge_id c)
                     (challenge_members db)) = Some m \<longrightarrow>
           first (filter (\<lambda>m. ChallengeMember.user_id m = uid \<and>
                             ChallengeMember.challenge_id m = Challenge.challenge_id c)
                     (challenge_members
                        (fst (update_challenge_status_if_completed db c progress uid)))) =
             Some (m\<lparr>is_completed := True\<rparr>)) \<and>
      (first (filter (\<lambda>m. ChallengeMember.user_id m = uid \<and>
                           ChallengeMember.challenge_id m = Challenge.challenge_id c)
                (challenge_members db)) = None \<longrightarrow>
         challenge_members (fst (update_challenge_status_if_completed db c progress uid)) =
           challenge_members db) \<and>
      filter (\<lambda>m. \<not> (ChallengeMember.user_id m = uid \<and>
                      ChallengeMember.challenge_id m = Challenge.challenge_id c))
        (challenge_members (fst (update_challenge_status_if_completed db c progress uid))) =
      filter (\<lambda>m. \<not> (ChallengeMember.user_id m = uid \<and>
                      ChallengeMember.challenge_id m = Challenge.challenge_id c))
        (challenge_members db) \<and>
      length (challenge_members (fst (update_challenge_status_if_completed db c progress uid))) =
        length (challenge_members db) \<and>
      (fst (update_challenge_status_if_completed db c progress uid))
        \<lparr>challenges := challenges db, challenge_members := challenge_members db\<rparr> = db \<and>
      update_challenge_status_if_completed
        (fst (update_challenge_status_if_completed db c progress uid))
        (snd (update_challenge_status_if_completed db c progress uid)) progress' uid' =
      update_challenge_status_if_completed db c progress uid) \<and>
   (status c = COMPLETED \<longrightarrow>
      update_challenge_status_if_completed db c progress uid = (db, c))"
proof -
  let ?Q = "\<lambda>m. ChallengeMember.user_id m = uid \<and>
                ChallengeMember.challenge_id m = Challenge.challenge_id c"
  let ?f = "\<lambda>m. m\<lparr>is_completed := True\<rparr>"
  let ?r = "update_challenge_status_if_completed db c progress uid"
  have skip: "completion_type c \<noteq> AUTO \<or> status c \<noteq> ACTIVE \<or> progress < 100 \<longrightarrow>
      ?r = (db, c)"
    using update_challenge_status_skip by blast
  have one_way: "status c = COMPLETED \<longrightarrow> ?r = (db, c)"
    by (simp add: update_challenge_status_skip)
  have fires: "snd ?r = c\<lparr>status := COMPLETED\<rparr> \<and>
      challenges (fst ?r) =
        map (\<lambda>r. if Challenge.challenge_id r = Challenge.challenge_id c
                 then r\<lparr>status := COMPLETED\<rparr> else r) (challenges db) \<and>
      (\<forall>m. first (filter ?Q (challenge_members db)) = Some m \<longrightarrow>
           first (filter ?Q (challenge_members (fst ?r))) = Some (m\<lparr>is_completed := True\<rparr>)) \<and>
      (first (filter ?Q (challenge_members db)) = None \<longrightarrow>
         challenge_members (fst ?r) = challenge_members db) \<and>
      filter (\<lambda>m. \<not> ?Q m) (challenge_members (fst ?r)) =
        filter (\<lambda>m. \<not> ?Q m) (challenge_members db) \<and>
      length (challenge_members (fst ?r)) = length (challenge_members db) \<and>
      (fst ?r)\<lparr>challenges := challenges db, challenge_members := challenge_members db\<rparr> = db \<and>
      update_challenge_status_if_completed (fst ?r) (snd ?r) progress' uid' = ?r"
    if g: "completion_type c = AUTO \<and> status c = ACTIVE \<and> 100 \<le> progress"
  proof -
    from g have fire: "?r =
       (db\<lparr>challenges :=
             map (\<lambda>r. if Challenge.challenge_id r = Challenge.challenge_id c
                      then r\<lparr>status := COMPLETED\<rparr> else r) (challenges db),
           challenge_members :=
             (case first (filter ?Q (challenge_members db)) of
                None \<Rightarrow> challenge_members db
              | Some _ \<Rightarrow> update_first ?Q ?f (challenge_members db))\<rparr>,
        c\<lparr>status := COMPLETED\<rparr>)"
      using update_challenge_status_fire [of c progress db uid]
      unfolding is_member_of_eq by simp
    have keep: "\<And>x. ?Q x \<Longrightarrow> ?Q (?f x)"
      by simp
    have s: "snd ?r = c\<lparr>status := COMPLETED\<rparr>"
      by (simp add: fire)
    have ch: "challenges (fst ?r) =
        map (\<lambda>r. if Challenge.challenge_id r = Challenge.challenge_id c
                 then r\<lparr>status := COMPLETED\<rparr> else r) (challenges db)"
      by (simp add: fire)
    have some: "\<forall>m. first (filter ?Q (challenge_members db)) = Some m \<longrightarrow>
           first (filter ?Q (challenge_members (fst ?r))) = Some (m\<lparr>is_completed := True\<rparr>)"
    proof (intro allI impI)
      fix m
      assume m: "first (filter ?Q (challenge_members db)) = Some m"
      from update_first_first [of ?Q ?f, OF keep m] m
      show "first (filter ?Q (challenge_members (fst ?r))) = Some (m\<lparr>is_completed := True\<rparr>)"
        by (simp add: fire)
    qed
    have none: "first (filter ?Q (challenge_members db)) = None \<longrightarrow>
         challenge_members (fst ?r) = challenge_members db"
      by (simp add: fire)
    have others: "filter (\<lambda>m. \<not> ?Q m) (challenge_members (fst ?r)) =
        filter (\<lambda>m. \<not> ?Q m) (challenge_members db)"
    proof (cases "first (filter ?Q (challenge_members db))")
      case None
      then show ?thesis by (simp add: fire)
    next
      case (Some m)
      have "filter (\<lambda>m. \<not> ?Q m) (update_first ?Q ?f (challenge_members db)) =
          filter (\<lambda>m. \<not> ?Q m) (challenge_members db)"
        by (rule update_first_others) simp
      with Some show ?thesis by (simp add: fire)
    qed
    have len: "length (challenge_members (fst ?r)) = length (challenge_members db)"
      by (simp add: fire update_first_length split: option.splits)
    have frame: "(fst ?r)\<lparr>challenges := challenges db,
        challenge_members := challenge_members db\<rparr> = db"
      by (simp add: fire)
    have "status (snd ?r) \<noteq> ACTIVE"
      by (simp add: s)
    then have "update_challenge_status_if_completed (fst ?r) (snd ?r) progress' uid' =
        (fst ?r, snd ?r)"
      by (simp add: update_challenge_status_skip)
    then have again: "update_challenge_status_if_completed (fst ?r) (snd ?r) progress' uid' = ?r"
      by simp
    from s ch some none others len frame again show ?thesis
      by (intro conjI)
  qed
  show ?thesis
    by (rule conjI [OF skip conjI [OF impI [OF fires] one_way]])
qed

theorem update_challenge_status_if_completed_guards_witness:
  "update_challenge_status_if_completed sample_db
     (sample_challenge 1 PERSONAL AUTO TRIP_COUNT 5 ACTIVE) 60 1 =
     (sample_db, sample_challenge 1 PERSONAL AUTO TRIP_COUNT 5 ACTIVE) \<and>
   update_challenge_status_if_completed sample_db
     (sample_challenge 2 (ScopeOther ''GROUP'') MANUAL CO2_SAVED 1860 ACTIVE) 100 1 =
     (sample_db, sample_challenge 2 (ScopeOther ''GROUP'') MANUAL CO2_SAVED 1860 ACTIVE) \<and>
   update_challenge_status_if_completed sample_db
     (sample_challenge 4 PERSONAL AUTO (GoalOther ''STREAK'') 5 COMPLETED) 100 1 =
     (sample_db, sample_challenge 4 PERSONAL AUTO (GoalOther ''STREAK'') 5 COMPLETED) \<and>
   snd (update_challenge_status_if_completed sample_db
          (sample_challenge 1 PERSONAL AUTO TRIP_COUNT 5 ACTIVE) 100 1) =
     sample_challenge 1 PERSONAL AUTO TRIP_COUNT 5 COMPLETED \<and>
   first (filter (\<lambda>m. ChallengeMember.user_id m = 1 \<and> ChallengeMember.challenge_id m = 1)
            (challenge_members
               (fst (update_challenge_status_if_completed sample_db
                       (sample_challenge 1 PERSONAL AUTO TRIP_COUNT 5 ACTIVE) 100 1)))) =
     Some ((new_member 1 1)\<lparr>is_completed := True\<rparr>) \<and>
   update_challenge_status_if_completed
     (fst (update_challenge_status_if_completed sample_db
             (sample_challenge 1 PERSONAL AUTO TRIP_COUNT 5 ACTIVE) 100 1))
     (snd (update_challenge_status_if_completed sample_db
             (sample_challenge 1 PERSONAL AUTO TRIP_COUNT 5 ACTIVE) 100 1)) 100 1 =
     update_challenge_status_if_completed sample_db
       (sample_challenge 1 PERSONAL AUTO TRIP_COUNT 5 ACTIVE) 100 1"
proof -
  let ?c1 = "sample_challenge 1 PERSONAL AUTO TRIP_COUNT 5 ACTIVE"
  let ?c2 = "sample_challenge 2 (ScopeOther ''GROUP'') MANUAL CO2_SAVED 1860 ACTIVE"
  let ?c4 = "sample_challenge 4 PERSONAL AUTO (GoalOther ''STREAK'') 5 COMPLETED"
  note t = update_challenge_status_if_completed_guards
  have low: "completion_type ?c1 \<noteq> AUTO \<or> status ?c1 \<noteq> ACTIVE \<or> (60::rat) < 100"
    by simp
  have manual: "completion_type ?c2 \<noteq> AUTO \<or> status ?c2 \<noteq> ACTIVE \<or> (100::rat) < 100"
    by (simp add: sample_challenge_def)
  have completed: "status ?c4 = COMPLETED"
    by (simp add: sample_challenge_def)
  have guards: "completion_type ?c1 = AUTO \<and> status ?c1 = ACTIVE \<and> (100::rat) \<le> 100"
    by (simp add: sample_challenge_def)
  have member: "first (filter (\<lambda>m. ChallengeMember.user_id m = 1 \<and>
        ChallengeMember.challenge_id m = Challenge.challenge_id ?c1)
      (challenge_members sample_db)) = Some (new_member 1 1)"
    by (simp add: first_def sample_db_def sample_challenge_def new_member_def)
  have cid: "Challenge.challenge_id ?c1 = 1"
    by (simp add: sample_challenge_def)
  have flipped: "?c1\<lparr>status := COMPLETED\<rparr> = sample_challenge 1 PERSONAL AUTO TRIP_COUNT 5 COMPLETED"
    by (simp add: sample_challenge_def)
  note fired = t [where c = ?c1 and progress = 100 and db = sample_db and uid = 1
      and progress' = 100 and uid' = 1, THEN conjunct2, THEN conjunct1, THEN mp, OF guards]
  have "update_challenge_status_if_completed sample_db ?c1 60 1 = (sample_db, ?c1)"
    by (rule t [where c = ?c1 and progress = 60, THEN conjunct1, THEN mp, OF low])
  moreover
  have "update_challenge_status_if_completed sample_db ?c2 100 1 = (sample_db, ?c2)"
    by (rule t [where c = ?c2 and progress = 100, THEN conjunct1, THEN mp, OF manual])
  moreover
  have "update_challenge_status_if_completed sample_db ?c4 100 1 = (sample_db, ?c4)"
    by (rule t [THEN conjunct2, THEN conjunct2, THEN mp, OF completed])
  moreover
  have "snd (update_challenge_status_if_completed sample_db ?c1 100 1) =
      sample_challenge 1 PERSONAL AUTO TRIP_COUNT 5 COMPLETED"
    using fired [THEN conjunct1] by (simp only: flipped)
  moreover
  have "first (filter (\<lambda>m. ChallengeMember.user_id m = 1 \<and> ChallengeMember.challenge_id m = 1)
            (challenge_members (fst (update_challenge_status_if_completed sample_db ?c1 100 1)))) =
     Some ((new_member 1 1)\<lparr>is_completed := True\<rparr>)"
    using fired [THEN conjunct2, THEN conjunct2, THEN conjunct1, THEN spec, THEN mp, OF member]
    by (simp only: cid)
  moreover
  have "update_challenge_status_if_completed
     (fst (update_challenge_status_if_completed sample_db ?c1 100 1))
     (snd (update_challenge_status_if_completed sample_db ?c1 100 1)) 100 1 =
     update_challenge_status_if_completed sample_db ?c1 100 1"
    by (rule fired [THEN conjunct2, THEN conjunct2, THEN conjunct2, THEN conjunct2,
          THEN conjunct2, THEN conjunct2, THEN conjunct2])
  ultimately show ?thesis by (intro conjI)
qed

subsection \<open>The progress update that writes nothing\<close>

text \<open>
  Claim C9. \<open>update_personal_challenge_progress\<close> leaves the session as it is and its
  result does not depend on \<open>progress_increment\<close>. It returns \<open>None\<close> when no
  \<open>ChallengeMember\<close> row exists for \<open>(user_id, challenge_id)\<close> or no \<open>Challenge\<close> row has
  the id, and otherwise the membership found, unchanged.
\<close>

theorem update_personal_challenge_progress_no_write:
  "fst (update_personal_challenge_progress db uid cid inc) = db \<and>
   update_personal_challenge_progress db uid cid inc =
     update_personal_challenge_progress db uid cid inc' \<and>
   ((\<forall>m\<in>set (challenge_members db).
        \<not> (ChallengeMember.user_id m = uid \<and> ChallengeMember.challenge_id m = cid)) \<or>
    (\<forall>c\<in>set (challenges db). Challenge.challenge_id c \<noteq> cid) \<longrightarrow>
      snd (update_personal_challenge_progress db uid cid inc) = None) \<and>
   (first (filter (\<lambda>m. ChallengeMember.user_id m = uid \<and> ChallengeMember.challenge_id m = cid)
             (challenge_members db)) = Some m \<and>
    (\<exists>c\<in>set (challenges db). Challenge.challenge_id c = cid) \<longrightarrow>
      snd (update_personal_challenge_progress db uid cid inc) = Some m \<and>
      m \<in> set (challenge_members db))"
proof -
  let ?member = "first (filter (\<lambda>m. ChallengeMember.user_id m = uid \<and>
      ChallengeMember.challenge_id m = cid) (challenge_members db))"
  let ?challenge = "first (filter (\<lambda>c. Challenge.challenge_id c = cid) (challenges db))"
  have body: "update_personal_challenge_progress db uid cid x =
      (if ?member = None \<or> ?challenge = None then (db, None) else (db, ?member))" for x
    by (simp add: update_personal_challenge_progress_def is_member_of_eq Let_def)
  have frame: "fst (update_personal_challenge_progress db uid cid inc) = db"
    by (simp add: body)
  have ignore: "update_personal_challenge_progress db uid cid inc =
      update_personal_challenge_progress db uid cid inc'"
    by (simp only: body)
  have absent: "snd (update_personal_challenge_progress db uid cid inc) = None"
    if "(\<forall>m\<in>set (challenge_members db).
          \<not> (ChallengeMember.user_id m = uid \<and> ChallengeMember.challenge_id m = cid)) \<or>
        (\<forall>c\<in>set (challenges db). Challenge.challenge_id c \<noteq> cid)"
  proof -
    from that have "?member = None \<or> ?challenge = None"
      unfolding first_filter_None by simp
    then show ?thesis by (auto simp: body)
  qed
  have present: "snd (update_personal_challenge_progress db uid cid inc) = Some m \<and>
      m \<in> set (challenge_members db)"
    if "?member = Some m \<and> (\<exists>c\<in>set (challenges db). Challenge.challenge_id c = cid)"
  proof -
    from that have m: "?member = Some m" and "?challenge \<noteq> None"
      unfolding first_filter_None by simp_all
    then have "snd (update_personal_challenge_progress db uid cid inc) = Some m"
      by (simp add: body)
    with first_filter_SomeD [OF m] show ?thesis by simp
  qed
  show ?thesis
    by (rule conjI [OF frame conjI [OF ignore conjI [OF impI [OF absent] impI [OF present]]]])
qed

theorem update_personal_challenge_progress_no_write_witness:
  "update_personal_challenge_progress sample_db 1 1 5 = (sample_db, Some (new_member 1 1)) \<and>
   update_personal_challenge_progress sample_db 1 1 5 =
     update_personal_challenge_progress sample_db 1 1 0 \<and>
   update_personal_challenge_progress sample_db 1 2 5 = (sample_db, None) \<and>
   update_personal_challenge_progress sample_db 1 9 5 = (sample_db, None)"
proof -
  note t = update_personal_challenge_progress_no_write
  have member: "first (filter (\<lambda>m. ChallengeMember.user_id m = 1 \<and>
        ChallengeMember.challenge_id m = 1) (challenge_members sample_db)) = Some (new_member 1 1) \<and>
      (\<exists>c\<in>set (challenges sample_db). Challenge.challenge_id c = 1)"
    by (simp add: first_def sample_db_def sample_challenge_def new_member_def)
  have no_member: "(\<forall>m\<in>set (challenge_members sample_db).
        \<not> (ChallengeMember.user_id m = 1 \<and> ChallengeMember.challenge_id m = 2)) \<or>
      (\<forall>c\<in>set (challenges sample_db). Challenge.challenge_id c \<noteq> 2)"
    by (simp add: sample_db_def new_member_def)
  have no_challenge: "(\<forall>m\<in>set (challenge_members sample_db).
        \<not> (ChallengeMember.user_id m = 1 \<and> ChallengeMember.challenge_id m = 9)) \<or>
      (\<forall>c\<in>set (challenges sample_db). Challenge.challenge_id c \<noteq> 9)"
    by (simp add: sample_db_def sample_challenge_def)
  have pair: "p = (a, b)" if "fst p = a" and "snd p = b" for p :: "Session \<times> ChallengeMember option" and a b
    using that by (cases p) simp
  have "update_personal_challenge_progress sample_db 1 1 5 = (sample_db, Some (new_member 1 1))"
    by (rule pair [OF t [THEN conjunct1]
          t [THEN conjunct2, THEN conjunct2, THEN conjunct2, THEN mp, OF member, THEN conjunct1]])
  moreover
  have "update_personal_challenge_progress sample_db 1 1 5 =
     update_personal_challenge_progress sample_db 1 1 0"
    by (rule t [THEN conjunct2, THEN conjunct1])
  moreover
  have "update_personal_challenge_progress sample_db 1 2 5 = (sample_db, None)"
    by (rule pair [OF t [THEN conjunct1]
          t [THEN conjunct2, THEN conjunct2, THEN conjunct1, THEN mp, OF no_member]])
  moreover
  have "update_personal_challenge_progress sample_db 1 9 5 = (sample_db, None)"
    by (rule pair [OF t [THEN conjunct1]
          t [THEN conjunct2, THEN conjunct2, THEN conjunct1, THEN mp, OF no_challenge]])
  ultimately show ?thesis by (intro conjI)
qed

end
